theory Spec2Isabelle
  imports Main
begin

section \<open>The scraping engine of nocode\_scraping\<close>

text \<open>
  A shallow embedding of the backend scraping module (\<^verbatim>\<open>src/unnamed/part_003\<close>):
  \<^verbatim>\<open>validateSelector\<close>, \<^verbatim>\<open>clickElement\<close>, \<^verbatim>\<open>loadPage\<close> and \<^verbatim>\<open>getContent\<close>.

  The module is a sequence of awaited calls into four external collaborators: the CSS
  grammar checker, the browser (playwright), the page cache (file-system-cache) and the
  file system. Each collaborator is a field of the record \<open>env\<close>: a function giving the
  outcome of the call, \<open>Inl\<close> when the call throws. The state the module changes (cache
  entries, files on disk) and the sequence of external calls it makes are the record
  \<open>world\<close>, passed through every function and returned updated. A rejected promise is a
  result \<open>Inl\<close>, a resolved one is \<open>Inr\<close>.
\<close>

subsection \<open>Data model\<close>

datatype SelectorStatus = VALID | INVALID

datatype GenericResponseStatus = GENERIC_SUCCESS | GENERIC_ERROR

datatype ScrapingStatus = SUCCESS | ERROR | NO_CONTENT | ELEMENT_NOT_FOUND | INVALID_SELECTOR

text \<open>
  \<^verbatim>\<open>DataSelector { path: string | undefined; language?: ...; status?: SelectorStatus }\<close>.
  An undefined field is \<open>None\<close>. The language is a string at run time (the request is a
  JSON message), so any value can arrive.
\<close>

record DataSelector =
  path :: "string option"
  language :: "string option"
  status :: "SelectorStatus option"

text \<open>The objects built with \<^verbatim>\<open>new\<close>, arguments in the order of the constructor calls.\<close>

datatype DataSelectorValidityError =
  DataSelectorValidityError (validity_message: string) (validity_selector: DataSelector)

datatype DataSelectorValidityResponse =
  DataSelectorValidityResponse (response_selector: DataSelector) (response_errors: "string list")
    (response_status: GenericResponseStatus)

datatype ScrapingError =
  ScrapingError (error_message: string) (error_status: ScrapingStatus)
    (error_selector: "DataSelector option")

datatype ScrapedContent =
  ScrapedContent (scraped_content: string) (scraped_selector: DataSelector)
    (scraped_screenshot: string)

text \<open>
  \<^verbatim>\<open>IScrapingRequest\<close>, with the fields the frontend sends
  (\<^verbatim>\<open>src/frontend/src/socket/scraping.ts\<close>): \<^verbatim>\<open>selector\<close>, \<^verbatim>\<open>url\<close>, \<^verbatim>\<open>clickBefore\<close>, \<^verbatim>\<open>useCache\<close>.
\<close>

record IScrapingRequest =
  selector :: "DataSelector option"
  url :: string
  clickBefore :: "DataSelector option list option"
  useCache :: "bool option"

text \<open>The parts of a parsed \<^verbatim>\<open>URL\<close> object the module reads; \<open>href\<close> is \<^verbatim>\<open>toString()\<close>.\<close>

record URL =
  href :: string
  hostname :: string
  pathname :: string
  search :: string
  hash :: string

text \<open>
  What an external call throws: playwright's \<^verbatim>\<open>TimeoutError\<close> or anything else. The
  module tells them apart with \<^verbatim>\<open>instanceof playwright.errors.TimeoutError\<close>.
\<close>

datatype ext_error = TimeoutError string | OtherError string

text \<open>Every value a promise of this module is rejected with.\<close>

datatype thrown =
  External ext_error
| Validity DataSelectorValidityError
| Scraping ScrapingError

subsection \<open>The world: cache, files, and the calls made so far\<close>

datatype event =
  ValidateText string
| NewPage
| CacheGet string string
| SetContent string
| Goto string
| ReadMarkup
| CacheSet string string string
| Click string "ext_error option"
| TextContent string
| Screenshot string string "ext_error option"
| ReadFile string
| Unlink string

text \<open>
  An event is an external call with its arguments. \<open>Click\<close> and \<open>Screenshot\<close> also record
  what the call threw, \<open>None\<close> when it resolved; the second argument of \<open>Screenshot\<close> is
  the file the image is written to.
\<close>

definition thrown_by :: "'e + 'a \<Rightarrow> 'e option" where
  "thrown_by r = (case r of Inl err \<Rightarrow> Some err | Inr v \<Rightarrow> None)"

text \<open>
  \<open>cache\<close> maps (namespace, key) to the stored markup; \<open>files\<close> maps a path to the bytes
  of the file there; \<open>trace\<close> lists the external calls in the order they were made.
\<close>

record world =
  cache :: "string \<times> string \<Rightarrow> string option"
  files :: "string \<Rightarrow> string option"
  trace :: "event list"

definition log :: "event \<Rightarrow> world \<Rightarrow> world" where
  "log ev w = w\<lparr>trace := trace w @ [ev]\<rparr>"

subsection \<open>The external collaborators\<close>

text \<open>
  \<open>'pg\<close> is the state of a browser page.
  \<^item> \<open>validateText\<close>: \<^verbatim>\<open>cssValidator.validateText(text)\<close>; \<open>Inr b\<close> is a result with
    \<^verbatim>\<open>valid = b\<close>.
  \<^item> \<open>validity_status\<close>: the \<^verbatim>\<open>status\<close> field that the constructor of
    \<^verbatim>\<open>DataSelectorValidityResponse\<close> gives the object it builds from a selector and a list
    of errors. The class is declared in \<^verbatim>\<open>../models\<close>, which is not among the sources.
  \<^item> \<open>newPage\<close>: \<^verbatim>\<open>chromium.launch()\<close>, \<^verbatim>\<open>newContext()\<close>, \<^verbatim>\<open>newPage()\<close>.
  \<^item> \<open>setContent\<close>, \<open>goto\<close>, \<open>page_content\<close>, \<open>click\<close>: the methods of the page.
  \<^item> \<open>textContent\<close>, \<open>screenshot\<close>: the methods of \<^verbatim>\<open>page.locator(path)\<close>;
    \<open>textContent\<close> gives \<open>None\<close> for \<^verbatim>\<open>null\<close>; \<open>screenshot\<close> gives the bytes of the image,
    which playwright writes to the path it is given.
  \<^item> \<open>read_fault\<close>, \<open>unlink_fault\<close>: an I/O error other than the absence of the file
    that hits \<^verbatim>\<open>readFile\<close> or \<^verbatim>\<open>unlink\<close> on a path (\<open>Some\<close> its message), if any.
  \<^item> \<open>base64\<close>: the base64 encoding \<^verbatim>\<open>readFile\<close> is asked for.
  \<^item> \<open>sha256_hex\<close>: \<^verbatim>\<open>createHash('sha256').update(s).digest('hex')\<close>.
  \<^item> \<open>new_URL\<close>: \<^verbatim>\<open>new URL(s)\<close>; \<open>Inl\<close> is the message of the \<^verbatim>\<open>TypeError\<close>.
  \<^item> \<open>finish\<close>: the click callbacks of \<^verbatim>\<open>getContent\<close> run concurrently; \<open>finish i\<close> is
    the time at which the callback of entry \<open>i\<close> completes.
  \<^item> \<open>String_of\<close>, \<open>String_of_selector\<close>, \<open>JSON_stringify\<close>: the text that a template
    literal or \<^verbatim>\<open>JSON.stringify\<close> makes of a thrown value or of a selector object.
\<close>

record 'pg env =
  validateText :: "string \<Rightarrow> ext_error + bool"
  validity_status :: "DataSelector \<Rightarrow> string list \<Rightarrow> GenericResponseStatus"
  newPage :: "ext_error + 'pg"
  setContent :: "'pg \<Rightarrow> string \<Rightarrow> ext_error + 'pg"
  goto :: "'pg \<Rightarrow> string \<Rightarrow> ext_error + 'pg"
  page_content :: "'pg \<Rightarrow> ext_error + string"
  click :: "'pg \<Rightarrow> string \<Rightarrow> ext_error + 'pg"
  textContent :: "'pg \<Rightarrow> string \<Rightarrow> ext_error + string option"
  screenshot :: "'pg \<Rightarrow> string \<Rightarrow> ext_error + string"
  read_fault :: "string \<Rightarrow> string option"
  unlink_fault :: "string \<Rightarrow> string option"
  base64 :: "string \<Rightarrow> string"
  sha256_hex :: "string \<Rightarrow> string"
  new_URL :: "string \<Rightarrow> string + URL"
  finish :: "nat \<Rightarrow> nat"
  String_of :: "thrown \<Rightarrow> string"
  String_of_selector :: "DataSelector \<Rightarrow> string"
  JSON_stringify :: "ext_error \<Rightarrow> string"

subsection \<open>File system calls\<close>

text \<open>
  \<^verbatim>\<open>readFile(path, {encoding: 'base64'})\<close> and \<^verbatim>\<open>unlink(path)\<close> of \<^verbatim>\<open>fs/promises\<close>. Both
  throw when the file is absent. What they throw is never a playwright \<^verbatim>\<open>TimeoutError\<close>.
\<close>

definition readFile :: "'pg env \<Rightarrow> world \<Rightarrow> string \<Rightarrow> (ext_error + string) \<times> world" where
  "readFile env w file =
     (let w1 = log (ReadFile file) w in
      case files w1 file of
        None \<Rightarrow> (Inl (OtherError ''ENOENT''), w1)
      | Some bytes \<Rightarrow>
          (case read_fault env file of
             Some msg \<Rightarrow> (Inl (OtherError msg), w1)
           | None \<Rightarrow> (Inr (base64 env bytes), w1)))"

definition unlink :: "'pg env \<Rightarrow> world \<Rightarrow> string \<Rightarrow> (ext_error + unit) \<times> world" where
  "unlink env w file =
     (let w1 = log (Unlink file) w in
      case files w1 file of
        None \<Rightarrow> (Inl (OtherError ''ENOENT''), w1)
      | Some bytes \<Rightarrow>
          (case unlink_fault env file of
             Some msg \<Rightarrow> (Inl (OtherError msg), w1)
           | None \<Rightarrow> (Inr (), w1\<lparr>files := (files w1)(file := None)\<rparr>)))"

subsection \<open>validateSelector\<close>

text \<open>The template literal \<^verbatim>\<open>`${selector.path}`\<close>: an undefined path prints as \<^verbatim>\<open>undefined\<close>.\<close>

definition path_text :: "DataSelector \<Rightarrow> string" where
  "path_text sel = (case path sel of None \<Rightarrow> ''undefined'' | Some p \<Rightarrow> p)"

text \<open>\<^verbatim>\<open>selector.language !== 'css' && selector.language !== undefined\<close>\<close>

definition unsupported_language :: "DataSelector \<Rightarrow> string option" where
  "unsupported_language sel =
     (case language sel of
        None \<Rightarrow> None
      | Some l \<Rightarrow> if l \<noteq> ''css'' then Some l else None)"

text \<open>
  The selector object is mutated in place: the selector of the response is the caller's
  selector with its new status, and the caller goes on with that one.
\<close>

definition validateSelector ::
  "'pg env \<Rightarrow> world \<Rightarrow> DataSelector \<Rightarrow>
     (DataSelectorValidityError + DataSelectorValidityResponse) \<times> world" where
  "validateSelector env w sel =
     (case unsupported_language sel of
        Some l \<Rightarrow>
          (Inl (DataSelectorValidityError
                  (''Unsupported language '' @ l @ '', only CSS is currently supported'') sel), w)
      | None \<Rightarrow>
          (let text = path_text sel @ '' {}'';
               w1 = log (ValidateText text) w
           in case validateText env text of
                Inr valid \<Rightarrow>
                  (let sel' = sel\<lparr>status := Some (if valid then VALID else INVALID)\<rparr>;
                       errors = [''error parsing '' @ [CHR 0x27] @ path_text sel @ [CHR 0x27]]
                   in (Inr (DataSelectorValidityResponse sel' errors
                              (validity_status env sel' errors)), w1))
              | Inl err \<Rightarrow>
                  (Inl (DataSelectorValidityError (JSON_stringify env err) sel), w1)))"

subsection \<open>clickElement\<close>

definition clickElement ::
  "'pg env \<Rightarrow> 'pg \<Rightarrow> world \<Rightarrow> DataSelector option \<Rightarrow> (ScrapingError + bool) \<times> 'pg \<times> world" where
  "clickElement env page w selector_opt =
     (case selector_opt of
        None \<Rightarrow>
          (Inl (ScrapingError ''Undefined selector or selector path'' ERROR None), page, w)
      | Some sel \<Rightarrow>
     (case path sel of
        None \<Rightarrow>
          (Inl (ScrapingError ''Undefined selector or selector path'' ERROR (Some sel)), page, w)
      | Some p \<Rightarrow>
     (case unsupported_language sel of
        Some l \<Rightarrow>
          (Inl (ScrapingError
                  (''Unsupported language '' @ l @ '', only CSS is currently supported'')
                  ERROR (Some sel)), page, w)
      | None \<Rightarrow>
     (case validateSelector env w sel of
        (Inl err, w1) \<Rightarrow>
          (Inl (ScrapingError (''Error validating the selector '' @ String_of_selector env sel)
                  ERROR (Some sel)), page, w1)
      | (Inr validityResponse, w1) \<Rightarrow>
          (let sel' = response_selector validityResponse in
           if response_status validityResponse = GENERIC_ERROR then
             (Inl (ScrapingError (''Error validating the selector '' @ String_of_selector env sel')
                     ERROR (Some sel')), page, w1)
           else if status sel' = Some INVALID then
             (Inl (ScrapingError (''Invalid selector '' @ String_of_selector env sel')
                     INVALID_SELECTOR (Some sel')), page, w1)
           else
             (let w2 = log (Click p (thrown_by (click env page p))) w1 in
              case click env page p of
                Inr page' \<Rightarrow> (Inr True, page', w2)
              | Inl (TimeoutError msg) \<Rightarrow>
                  (Inl (ScrapingError (''the selector '' @ p @ '' could not be found'')
                          ELEMENT_NOT_FOUND (Some sel')), page, w2)
              | Inl (OtherError msg) \<Rightarrow>
                  (Inl (ScrapingError
                          (''error '' @ String_of env (External (OtherError msg))
                             @ '' when scraping '' @ p)
                          ERROR (Some sel')), page, w2)))))))"

subsection \<open>loadPage\<close>

text \<open>
  The cache is \<^verbatim>\<open>new FileSystemCache({basePath: './.cache', ns: url.hostname})\<close>, read and
  written under the key \<^verbatim>\<open>sha256(url.pathname)\<close>. \<^verbatim>\<open>cache.get\<close> gives \<^verbatim>\<open>undefined\<close> for a
  key that has no entry. The store is a map: a read gives what was written last, and
  neither call throws. \<^verbatim>\<open>loadPage\<close> takes the address only.
  \<^verbatim>\<open>page.setDefaultTimeout(1000)\<close> sets the delay after which the calls on the page throw a
  \<^verbatim>\<open>TimeoutError\<close>; whether they do is what the fields of \<open>env\<close> say.
\<close>

definition loadPage :: "'pg env \<Rightarrow> world \<Rightarrow> URL \<Rightarrow> (ext_error + 'pg) \<times> world" where
  "loadPage env w u =
     (let w1 = log NewPage w in
      case newPage env of
        Inl err \<Rightarrow> (Inl err, w1)
      | Inr page \<Rightarrow>
          (let key = sha256_hex env (pathname u);
               ns = hostname u;
               w2 = log (CacheGet ns key) w1
           in case cache w2 (ns, key) of
                Some cachedHtml \<Rightarrow>
                  (let w3 = log (SetContent cachedHtml) w2 in
                   case setContent env page cachedHtml of
                     Inl err \<Rightarrow> (Inl err, w3)
                   | Inr page' \<Rightarrow> (Inr page', w3))
              | None \<Rightarrow>
                  (let w3 = log (Goto (href u)) w2 in
                   case goto env page (href u) of
                     Inl err \<Rightarrow> (Inl err, w3)
                   | Inr page' \<Rightarrow>
                       (let w4 = log ReadMarkup w3 in
                        case page_content env page' of
                          Inl err \<Rightarrow> (Inl err, w4)
                        | Inr html \<Rightarrow>
                            (let w5 = log (CacheSet ns key html) w4
                             in (Inr page',
                                 w5\<lparr>cache := (cache w5)((ns, key) := Some html)\<rparr>))))))"

subsection \<open>getContent\<close>

text \<open>
  \<^verbatim>\<open>_url.toString().substring(_url.toString().lastIndexOf('/') + 1)\<close>: the text after the
  last slash, the whole text when there is none (\<^verbatim>\<open>lastIndexOf\<close> is then \<open>-1\<close>).
\<close>

definition baseName :: "string \<Rightarrow> string" where
  "baseName s = rev (takeWhile (\<lambda>c. c \<noteq> CHR ''/'') (rev s))"

definition screenshotPath :: "URL \<Rightarrow> string" where
  "screenshotPath u = ''./'' @ hostname u @ ''-'' @ baseName (href u) @ ''.png''"

text \<open>
  \<^verbatim>\<open>Promise.all(req.clickBefore.map(async (element) => { ... }))\<close>. An undefined entry is
  skipped. Each other entry is clicked with \<^verbatim>\<open>clickElement\<close>, and a rejection is caught
  and stored in the variable \<^verbatim>\<open>clickErr\<close> shared by all callbacks. \<open>clickAll\<close> gives, entry
  by entry, the error the callback caught, if any; the page is handed from one click to
  the next in list order. \<^verbatim>\<open>page.waitForTimeout(500)\<close> only waits. In the code all
  callbacks start at once, so the checker is called for every entry before the first
  click; the trace lists the calls entry by entry, one of the orders in which they can
  complete.
\<close>

fun clickAll ::
  "'pg env \<Rightarrow> 'pg \<Rightarrow> world \<Rightarrow> DataSelector option list \<Rightarrow>
     ScrapingError option list \<times> 'pg \<times> world" where
  "clickAll env page w [] = ([], page, w)"
| "clickAll env page w (None # rest) =
     (case clickAll env page w rest of
        (errs, page', w') \<Rightarrow> (None # errs, page', w'))"
| "clickAll env page w (Some element # rest) =
     (case clickElement env page w (Some element) of
        (Inl err, page1, w1) \<Rightarrow>
          (case clickAll env page1 w1 rest of
             (errs, page', w') \<Rightarrow> (Some err # errs, page', w'))
      | (Inr ok, page1, w1) \<Rightarrow>
          (case clickAll env page1 w1 rest of
             (errs, page', w') \<Rightarrow> (None # errs, page', w')))"

text \<open>
  The callbacks run concurrently, so the value \<^verbatim>\<open>clickErr\<close> holds after the join is the
  error of the failing callback that completed last: the one with the greatest \<open>finish\<close>
  time, the later entry on a tie. \<open>i\<close> is the index of the head of the list, \<open>acc\<close> the
  latest failure so far with its index.
\<close>

fun lastObserved ::
  "(nat \<Rightarrow> nat) \<Rightarrow> nat \<Rightarrow> ScrapingError option list \<Rightarrow> (nat \<times> ScrapingError) option \<Rightarrow>
     (nat \<times> ScrapingError) option" where
  "lastObserved fin i [] acc = acc"
| "lastObserved fin i (None # errs) acc = lastObserved fin (Suc i) errs acc"
| "lastObserved fin i (Some err # errs) acc =
     lastObserved fin (Suc i) errs
       (case acc of
          None \<Rightarrow> Some (i, err)
        | Some (j, err') \<Rightarrow> if fin j \<le> fin i then Some (i, err) else Some (j, err'))"

definition clickErr :: "'pg env \<Rightarrow> ScrapingError option list \<Rightarrow> ScrapingError option" where
  "clickErr env errs = map_option snd (lastObserved (finish env) 0 errs None)"

text \<open>
  The block \<^verbatim>\<open>if (req.clickBefore) { ... }\<close>: the value of \<^verbatim>\<open>clickErr\<close> after the join,
  with the page and the world. The condition holds for every array, also the empty one.
\<close>

definition getContent_clicks ::
  "'pg env \<Rightarrow> 'pg \<Rightarrow> world \<Rightarrow> IScrapingRequest \<Rightarrow> ScrapingError option \<times> 'pg \<times> world" where
  "getContent_clicks env page w req =
     (case clickBefore req of
        None \<Rightarrow> (None, page, w)
      | Some elements \<Rightarrow>
          (case clickAll env page w elements of
             (errs, page', w') \<Rightarrow> (clickErr env errs, page', w')))"

text \<open>
  How the body of the second \<^verbatim>\<open>try\<close> block of \<^verbatim>\<open>getContent\<close> ends: it throws, and the
  \<^verbatim>\<open>catch\<close> block handles the value, or it returns a promise, which the \<^verbatim>\<open>catch\<close> block
  does not see (\<^verbatim>\<open>return Promise.reject(...)\<close> is not awaited).
\<close>

datatype try_end =
  Throws thrown
| Returns "ScrapingError + ScrapedContent"

text \<open>
  The end of the \<^verbatim>\<open>try\<close> block, from \<^verbatim>\<open>page.locator(req.selector.path).textContent()\<close>
  on: the text is read, the screenshot is taken and written to \<open>file\<close>, the file is read
  back and deleted, and the result is built. \<open>sel\<close> is \<^verbatim>\<open>req.selector\<close> after validation,
  \<open>p\<close> its path. \<^verbatim>\<open>if (content)\<close> fails for \<^verbatim>\<open>null\<close> and for the empty string.
\<close>

definition getContent_extract ::
  "'pg env \<Rightarrow> 'pg \<Rightarrow> world \<Rightarrow> DataSelector \<Rightarrow> string \<Rightarrow> string \<Rightarrow> try_end \<times> world" where
  "getContent_extract env page w sel p file =
     (let w1 = log (TextContent p) w in
      case textContent env page p of
        Inl err \<Rightarrow> (Throws (External err), w1)
      | Inr content \<Rightarrow>
     (let w2 = log (Screenshot p file (thrown_by (screenshot env page p))) w1 in
      case screenshot env page p of
        Inl err \<Rightarrow> (Throws (External err), w2)
      | Inr bytes \<Rightarrow>
     (let w3 = w2\<lparr>files := (files w2)(file := Some bytes)\<rparr> in
      case readFile env w3 file of
        (Inl err, w4) \<Rightarrow> (Throws (External err), w4)
      | (Inr imageAsBase64, w4) \<Rightarrow>
     (case unlink env w4 file of
        (Inl err, w5) \<Rightarrow> (Throws (External err), w5)
      | (Inr done, w5) \<Rightarrow>
          (case content of
             None \<Rightarrow>
               (Returns (Inl (ScrapingError (''no content found for selector '' @ p)
                                NO_CONTENT (Some sel))), w5)
           | Some c \<Rightarrow>
               if c = [] then
                 (Returns (Inl (ScrapingError (''no content found for selector '' @ p)
                                  NO_CONTENT (Some sel))), w5)
               else
                 (Returns (Inr (ScrapedContent c sel (''data:image/gif;base64,'' @ imageAsBase64))),
                  w5))))))"

text \<open>
  The body of the \<^verbatim>\<open>try\<close> block: the page is loaded, the clicks are made, the content is
  extracted. \<^verbatim>\<open>page.waitForTimeout(500)\<close> after the load only waits.
\<close>

definition getContent_try ::
  "'pg env \<Rightarrow> world \<Rightarrow> IScrapingRequest \<Rightarrow> DataSelector \<Rightarrow> string \<Rightarrow> URL \<Rightarrow> try_end \<times> world" where
  "getContent_try env w req sel p u =
     (case loadPage env w u of
        (Inl err, w1) \<Rightarrow> (Throws (External err), w1)
      | (Inr page, w1) \<Rightarrow>
          (case getContent_clicks env page w1 req of
             (Some err, page2, w2) \<Rightarrow> (Throws (Scraping err), w2)
           | (None, page2, w2) \<Rightarrow> getContent_extract env page2 w2 sel p (screenshotPath u)))"

text \<open>
  The \<^verbatim>\<open>catch\<close> block. \<^verbatim>\<open>playwright.errors\<close> is the library's own object, undefined only
  under the mocks of the tests; it is modelled as defined.
\<close>

definition getContent_catch ::
  "'pg env \<Rightarrow> world \<Rightarrow> DataSelector \<Rightarrow> string \<Rightarrow> URL \<Rightarrow> thrown \<Rightarrow> (thrown + ScrapedContent) \<times> world" where
  "getContent_catch env w sel p u error =
     (case error of
        External (TimeoutError msg) \<Rightarrow>
          (Inl (Scraping (ScrapingError (''the selector '' @ p @ '' could not be found'')
                            NO_CONTENT (Some sel))), w)
      | _ \<Rightarrow>
          (case unlink env w (screenshotPath u) of
             (swallowed, w1) \<Rightarrow>
               (case error of
                  Scraping err \<Rightarrow> (Inl (Scraping err), w1)
                | _ \<Rightarrow>
                    (Inl (Scraping (ScrapingError
                                      (''error '' @ String_of env error @ '' when scraping '' @ p)
                                      ERROR (Some sel))), w1))))"

text \<open>
  \<^verbatim>\<open>getContent\<close>. The request may be undefined. \<^verbatim>\<open>new URL(req.url)\<close> stands outside both
  \<^verbatim>\<open>try\<close> blocks: what it throws rejects the promise as it is.
\<close>

definition getContent ::
  "'pg env \<Rightarrow> world \<Rightarrow> IScrapingRequest option \<Rightarrow> (thrown + ScrapedContent) \<times> world" where
  "getContent env w req_opt =
     (case req_opt of
        None \<Rightarrow> (Inl (Scraping (ScrapingError ''invalid call'' ERROR None)), w)
      | Some req \<Rightarrow>
     (case selector req of
        None \<Rightarrow> (Inl (Scraping (ScrapingError ''invalid call'' ERROR None)), w)
      | Some sel0 \<Rightarrow>
     (case path sel0 of
        None \<Rightarrow> (Inl (Scraping (ScrapingError ''invalid call'' ERROR None)), w)
      | Some p \<Rightarrow>
     (case validateSelector env w sel0 of
        (Inl err, w1) \<Rightarrow>
          (Inl (Scraping (ScrapingError (''invalid selector, '' @ String_of env (Validity err))
                            ERROR (Some sel0))), w1)
      | (Inr validityResponse, w1) \<Rightarrow>
          (let sel = response_selector validityResponse in
           if response_status validityResponse = GENERIC_ERROR then
             (Inl (Scraping (ScrapingError
                               (''Error validating the selector '' @ String_of_selector env sel)
                               ERROR (Some sel))), w1)
           else if status sel = Some INVALID then
             (Inl (Scraping (ScrapingError (''Invalid selector '' @ String_of_selector env sel)
                               INVALID_SELECTOR (Some sel))), w1)
           else
             (case new_URL env (url req) of
                Inl msg \<Rightarrow> (Inl (External (OtherError msg)), w1)
              | Inr u \<Rightarrow>
                  (case getContent_try env w1 req sel p u of
                     (Returns (Inr scraped), w2) \<Rightarrow> (Inr scraped, w2)
                   | (Returns (Inl err), w2) \<Rightarrow> (Inl (Scraping err), w2)
                   | (Throws error, w2) \<Rightarrow> getContent_catch env w2 sel p u error)))))))"

subsection \<open>Observing a run\<close>

text \<open>
  \<open>adds P w w'\<close>: the trace of \<open>w'\<close> is the trace of \<open>w\<close> followed by events that all
  satisfy \<open>P\<close>. The calls a function makes are the events it adds.
\<close>

definition adds :: "(event \<Rightarrow> bool) \<Rightarrow> world \<Rightarrow> world \<Rightarrow> bool" where
  "adds P w w' \<longleftrightarrow> (\<exists>evs. trace w' = trace w @ evs \<and> list_all P evs)"

text \<open>The calls of the extraction stage: reading the text and taking the screenshot.\<close>

fun extraction :: "event \<Rightarrow> bool" where
  "extraction (TextContent p) = True"
| "extraction (Screenshot p file err) = True"
| "extraction (ReadFile file) = True"
| "extraction ev = False"

text \<open>The calls that fetch a page from the web and store its markup.\<close>

fun live_fetch :: "event \<Rightarrow> bool" where
  "live_fetch (Goto address) = True"
| "live_fetch ReadMarkup = True"
| "live_fetch (CacheSet ns key html) = True"
| "live_fetch ev = False"

text \<open>A click that threw.\<close>

fun failed_click :: "event \<Rightarrow> bool" where
  "failed_click (Click p (Some err)) = True"
| "failed_click ev = False"

text \<open>The calls made before the extraction stage: validation, page acquisition, clicks.\<close>

fun preparation :: "event \<Rightarrow> bool" where
  "preparation (TextContent p) = False"
| "preparation (Screenshot p file err) = False"
| "preparation (ReadFile file) = False"
| "preparation (Unlink file) = False"
| "preparation ev = True"

section \<open>A concrete site\<close>

text \<open>
  An environment to run the module on: a checker that rejects \<^verbatim>\<open>div >> p\<close> and the empty path and
  cannot be reached for \<^verbatim>\<open>crash\<close>, a page whose state is its markup, an element \<^verbatim>\<open>.missing\<close> that
  never appears, an element \<^verbatim>\<open>.detached\<close> whose click fails, an element \<^verbatim>\<open>.empty\<close> without
  text and an element \<^verbatim>\<open>.absent\<close> that is waited for in vain. The hash and the base64
  encoding are the identity here, which keeps the keys and the images readable; every
  address parses to the page \<^verbatim>\<open>/page\<close> of \<^verbatim>\<open>example.test\<close>. The callbacks of the clicks
  complete in list order.
\<close>

definition example_env :: "string env" where
  "example_env =
     \<lparr>validateText = (\<lambda>t. if t = ''div >> p {}'' \<or> t = '' {}'' then Inr False
                          else if t = ''crash {}'' then Inl (OtherError ''fetch failed'')
                          else Inr True),
      validity_status = (\<lambda>sel errors. GENERIC_SUCCESS),
      newPage = Inr [],
      setContent = (\<lambda>page html. Inr html),
      goto = (\<lambda>page address. Inr ''<html>live</html>''),
      page_content = (\<lambda>page. Inr page),
      click = (\<lambda>page p. if p = ''.missing'' then Inl (TimeoutError ''Timeout 1000ms exceeded'')
                        else if p = ''.detached'' then Inl (OtherError ''Target closed'')
                        else Inr page),
      textContent = (\<lambda>page p. if p = ''.empty'' then Inr (Some [])
                              else if p = ''.absent''
                                then Inl (TimeoutError ''Timeout 1000ms exceeded'')
                              else Inr (Some ''yeah baby'')),
      screenshot = (\<lambda>page p. Inr ''PNG''),
      read_fault = (\<lambda>file. None),
      unlink_fault = (\<lambda>file. None),
      base64 = (\<lambda>bytes. bytes),
      sha256_hex = (\<lambda>s. s),
      new_URL = (\<lambda>s. Inr \<lparr>href = s, hostname = ''example.test'', pathname = ''/page'',
                           search = [], hash = []\<rparr>),
      finish = (\<lambda>i. i),
      String_of = (\<lambda>t. ''Error''),
      String_of_selector = (\<lambda>sel. ''[object Object]''),
      JSON_stringify = (\<lambda>err. ''{}'')\<rparr>"

text \<open>A world with an empty cache and no file, in which nothing has been called yet.\<close>

definition empty_world :: world where
  "empty_world = \<lparr>cache = (\<lambda>k. None), files = (\<lambda>f. None), trace = []\<rparr>"

definition css_selector :: "string \<Rightarrow> DataSelector" where
  "css_selector p = \<lparr>path = Some p, language = None, status = None\<rparr>"

text \<open>The address \<^verbatim>\<open>https://example.test/page\<close>, bare and with a query and a fragment.\<close>

definition page_url :: URL where
  "page_url = \<lparr>href = ''https://example.test/page'', hostname = ''example.test'',
               pathname = ''/page'', search = [], hash = []\<rparr>"

definition page_url_query :: URL where
  "page_url_query = \<lparr>href = ''https://example.test/page?lang=fr#top'',
                     hostname = ''example.test'', pathname = ''/page'',
                     search = ''?lang=fr'', hash = ''#top''\<rparr>"

text \<open>A world whose cache already holds markup for that address.\<close>

definition cached_world :: world where
  "cached_world =
     \<lparr>cache = (\<lambda>k. if k = (''example.test'', ''/page'') then Some ''<html>cached</html>''
                     else None),
      files = (\<lambda>f. None), trace = []\<rparr>"

text \<open>The request for the text of a CSS path on that address.\<close>

definition request :: "string \<Rightarrow> DataSelector option list option \<Rightarrow> bool option \<Rightarrow> IScrapingRequest" where
  "request p clicks flag =
     \<lparr>selector = Some (css_selector p), url = ''https://example.test/page'',
      clickBefore = clicks, useCache = flag\<rparr>"

text \<open>A selector in a language that is not CSS.\<close>

definition xpath_selector :: DataSelector where
  "xpath_selector = \<lparr>path = Some ''//button'', language = Some ''xpath'', status = None\<rparr>"

text \<open>A world in which an older file already stands at the path of the screenshot.\<close>

definition stale_world :: world where
  "stale_world =
     \<lparr>cache = (\<lambda>k. None),
      files = (\<lambda>f. if f = ''./example.test-page.png'' then Some ''OLD'' else None),
      trace = []\<rparr>"

section \<open>Properties\<close>

subsection \<open>validateSelector\<close>

lemma validateSelector_checked:
  "unsupported_language sel = None \<Longrightarrow>
   validateSelector env w sel =
     (case validateText env (path_text sel @ '' {}'') of
        Inr valid \<Rightarrow>
          (Inr (DataSelectorValidityResponse
                  (sel\<lparr>status := Some (if valid then VALID else INVALID)\<rparr>)
                  [''error parsing '' @ [CHR 0x27] @ path_text sel @ [CHR 0x27]]
                  (validity_status env
                     (sel\<lparr>status := Some (if valid then VALID else INVALID)\<rparr>)
                     [''error parsing '' @ [CHR 0x27] @ path_text sel @ [CHR 0x27]])),
           log (ValidateText (path_text sel @ '' {}'')) w)
      | Inl err \<Rightarrow>
          (Inl (DataSelectorValidityError (JSON_stringify env err) sel),
           log (ValidateText (path_text sel @ '' {}'')) w))"
  by (simp add: validateSelector_def Let_def split: sum.splits)

text \<open>
  C7. A selector whose language is defined and is not \<^verbatim>\<open>css\<close> makes \<^verbatim>\<open>validateSelector\<close>
  reject with the unsupported-language error, whose message names the language. The world
  is returned as it was: the checker has not been called, and nothing has touched the
  cache, the browser or the files.
\<close>

theorem validateSelector_unsupported_language:
  assumes "language sel = Some l" and "l \<noteq> ''css''"
  shows "validateSelector env w sel =
           (Inl (DataSelectorValidityError
                   (''Unsupported language '' @ l @ '', only CSS is currently supported'') sel), w)"
  using assms by (simp add: validateSelector_def unsupported_language_def)

theorem validateSelector_unsupported_language_witness:
  "validateSelector example_env empty_world
     \<lparr>path = Some ''//div'', language = Some ''xpath'', status = None\<rparr> =
   (Inl (DataSelectorValidityError
           ''Unsupported language xpath, only CSS is currently supported''
           \<lparr>path = Some ''//div'', language = Some ''xpath'', status = None\<rparr>), empty_world)"
  using validateSelector_unsupported_language
          [of "\<lparr>path = Some ''//div'', language = Some ''xpath'', status = None\<rparr>" "''xpath''"
              example_env empty_world]
  by simp

text \<open>
  C6. For a selector whose language is \<^verbatim>\<open>css\<close> or unset, \<^verbatim>\<open>validateSelector\<close> submits the
  rule \<^verbatim>\<open><path> {}\<close> to the checker. When the checker answers, the promise resolves, and the
  selector of the response is the given selector with status \<open>VALID\<close> if the checker found
  the rule valid and \<open>INVALID\<close> if not. When the checker throws, the promise is rejected
  with a \<^verbatim>\<open>DataSelectorValidityError\<close>.
\<close>

theorem validateSelector_css:
  assumes "language sel = None \<or> language sel = Some ''css''"
  shows "(validateText env (path_text sel @ '' {}'') = Inr valid \<longrightarrow>
            validateSelector env w sel =
              (Inr (DataSelectorValidityResponse
                      (sel\<lparr>status := Some (if valid then VALID else INVALID)\<rparr>)
                      [''error parsing '' @ [CHR 0x27] @ path_text sel @ [CHR 0x27]]
                      (validity_status env
                         (sel\<lparr>status := Some (if valid then VALID else INVALID)\<rparr>)
                         [''error parsing '' @ [CHR 0x27] @ path_text sel @ [CHR 0x27]])),
               log (ValidateText (path_text sel @ '' {}'')) w)) \<and>
         (validateText env (path_text sel @ '' {}'') = Inl err \<longrightarrow>
            validateSelector env w sel =
              (Inl (DataSelectorValidityError (JSON_stringify env err) sel),
               log (ValidateText (path_text sel @ '' {}'')) w))"
  using assms by (auto simp add: validateSelector_def unsupported_language_def Let_def)

theorem validateSelector_css_witness:
  "validateSelector example_env empty_world (css_selector ''div >> p'') =
     (Inr (DataSelectorValidityResponse
             \<lparr>path = Some ''div >> p'', language = None, status = Some INVALID\<rparr>
             [''error parsing '' @ [CHR 0x27] @ ''div >> p'' @ [CHR 0x27]] GENERIC_SUCCESS),
      log (ValidateText ''div >> p {}'') empty_world) \<and>
   validateSelector example_env empty_world (css_selector ''crash'') =
     (Inl (DataSelectorValidityError ''{}'' (css_selector ''crash'')),
      log (ValidateText ''crash {}'') empty_world)"
  using validateSelector_css [of "css_selector ''div >> p''" example_env False empty_world]
        validateSelector_css [of "css_selector ''crash''" example_env _ empty_world
                                 "OtherError ''fetch failed''"]
  by (simp add: example_env_def path_text_def css_selector_def)

subsection \<open>clickElement\<close>

text \<open>
  C8. \<^verbatim>\<open>clickElement\<close> on a selector with a path and a supported language, when a validity
  response never carries the generic error status: a selector the checker finds invalid is
  rejected with status \<open>INVALID_SELECTOR\<close> and is not clicked; for a valid one, a click
  that times out is rejected with \<open>ELEMENT_NOT_FOUND\<close>, a click that fails otherwise with
  \<open>ERROR\<close>, and a click that succeeds resolves to \<^verbatim>\<open>true\<close>.
\<close>

theorem clickElement_classification:
  assumes p: "path sel = Some p"
    and lang: "language sel = None \<or> language sel = Some ''css''"
    and resp: "\<forall>s errors. validity_status env s errors \<noteq> GENERIC_ERROR"
  shows "(validateText env (p @ '' {}'') = Inr False \<longrightarrow>
            clickElement env page w (Some sel) =
              (Inl (ScrapingError
                      (''Invalid selector '' @ String_of_selector env (sel\<lparr>status := Some INVALID\<rparr>))
                      INVALID_SELECTOR (Some (sel\<lparr>status := Some INVALID\<rparr>))),
               page, log (ValidateText (p @ '' {}'')) w)) \<and>
         (validateText env (p @ '' {}'') = Inr True \<longrightarrow>
            (\<forall>msg. click env page p = Inl (TimeoutError msg) \<longrightarrow>
               clickElement env page w (Some sel) =
                 (Inl (ScrapingError (''the selector '' @ p @ '' could not be found'')
                         ELEMENT_NOT_FOUND (Some (sel\<lparr>status := Some VALID\<rparr>))),
                  page,
                  log (Click p (Some (TimeoutError msg))) (log (ValidateText (p @ '' {}'')) w))) \<and>
            (\<forall>msg. click env page p = Inl (OtherError msg) \<longrightarrow>
               clickElement env page w (Some sel) =
                 (Inl (ScrapingError
                         (''error '' @ String_of env (External (OtherError msg))
                            @ '' when scraping '' @ p)
                         ERROR (Some (sel\<lparr>status := Some VALID\<rparr>))),
                  page,
                  log (Click p (Some (OtherError msg))) (log (ValidateText (p @ '' {}'')) w))) \<and>
            (\<forall>page'. click env page p = Inr page' \<longrightarrow>
               clickElement env page w (Some sel) =
                 (Inr True, page',
                  log (Click p None) (log (ValidateText (p @ '' {}'')) w))))"
proof -
  from lang have ul: "unsupported_language sel = None"
    by (auto simp add: unsupported_language_def)
  from p have pt: "path_text sel = p"
    by (simp add: path_text_def)
  show ?thesis
    using resp
    by (simp add: clickElement_def p ul validateSelector_checked pt Let_def thrown_by_def)
qed

theorem clickElement_classification_witness:
  "fst (clickElement example_env ''<html/>'' empty_world (Some (css_selector ''div >> p''))) =
     Inl (ScrapingError ''Invalid selector [object Object]'' INVALID_SELECTOR
            (Some \<lparr>path = Some ''div >> p'', language = None, status = Some INVALID\<rparr>)) \<and>
   fst (clickElement example_env ''<html/>'' empty_world (Some (css_selector ''.missing''))) =
     Inl (ScrapingError ''the selector .missing could not be found'' ELEMENT_NOT_FOUND
            (Some \<lparr>path = Some ''.missing'', language = None, status = Some VALID\<rparr>)) \<and>
   fst (clickElement example_env ''<html/>'' empty_world (Some (css_selector ''.detached''))) =
     Inl (ScrapingError ''error Error when scraping .detached'' ERROR
            (Some \<lparr>path = Some ''.detached'', language = None, status = Some VALID\<rparr>)) \<and>
   fst (clickElement example_env ''<html/>'' empty_world (Some (css_selector ''.banner''))) =
     Inr True"
  using clickElement_classification
          [of "css_selector ''div >> p''" "''div >> p''" example_env "''<html/>''" empty_world]
        clickElement_classification
          [of "css_selector ''.missing''" "''.missing''" example_env "''<html/>''" empty_world]
        clickElement_classification
          [of "css_selector ''.detached''" "''.detached''" example_env "''<html/>''" empty_world]
        clickElement_classification
          [of "css_selector ''.banner''" "''.banner''" example_env "''<html/>''" empty_world]
  by (simp add: example_env_def css_selector_def)

subsection \<open>What each stage leaves unchanged\<close>

lemma adds_refl [simp]: "adds P w w"
  by (simp add: adds_def)

lemma adds_trans: "adds P w w1 \<Longrightarrow> adds P w1 w2 \<Longrightarrow> adds P w w2"
  by (auto simp add: adds_def)

lemma adds_log: "P ev \<Longrightarrow> adds P w w' \<Longrightarrow> adds P w (log ev w')"
  by (auto simp add: adds_def log_def)

lemma adds_mono: "adds P w w' \<Longrightarrow> (\<And>ev. P ev \<Longrightarrow> Q ev) \<Longrightarrow> adds Q w w'"
  by (auto simp add: adds_def list_all_iff)

lemma adds_files_update [simp]: "adds P w (w'\<lparr>files := f\<rparr>) = adds P w w'"
  by (simp add: adds_def)

lemma adds_cache_update [simp]: "adds P w (w'\<lparr>cache := c\<rparr>) = adds P w w'"
  by (simp add: adds_def)

lemma log_frame [simp]: "cache (log ev w) = cache w" "files (log ev w) = files w"
  by (simp_all add: log_def)

lemma validateSelector_frame:
  assumes "validateSelector env w sel = (r, w')"
  shows "cache w' = cache w \<and> files w' = files w \<and>
         (w' = w \<or> w' = log (ValidateText (path_text sel @ '' {}'')) w)"
  using assms
  by (auto simp add: validateSelector_def Let_def split: option.splits sum.splits)

lemma validateSelector_any_world:
  "fst (validateSelector env w sel) = fst (validateSelector env w0 sel)"
  by (simp add: validateSelector_def Let_def split: option.splits sum.splits)

lemma clickElement_frame:
  assumes "clickElement env page w sel = (r, page', w')"
  shows "cache w' = cache w \<and> files w' = files w \<and>
         adds (\<lambda>ev. preparation ev \<and> \<not> live_fetch ev) w w' \<and>
         ((\<exists>ok. r = Inr ok) \<longrightarrow> adds (\<lambda>ev. \<not> failed_click ev) w w')"
  using assms
  by (auto simp add: clickElement_def Let_def thrown_by_def intro!: adds_log
      dest!: validateSelector_frame
      split: option.splits sum.splits prod.splits if_splits ext_error.splits)

text \<open>A selector that validation does not let through is never clicked.\<close>

lemma clickElement_not_validated:
  assumes "fst (validateSelector env w0 sel) = Inl err \<or>
           (fst (validateSelector env w0 sel) = Inr resp \<and>
            status (response_selector resp) = Some INVALID)"
  shows "\<exists>err' w'. clickElement env page w (Some sel) = (Inl err', page, w')"
proof -
  obtain r w1 where v: "validateSelector env w sel = (r, w1)"
    by (cases "validateSelector env w sel")
  with validateSelector_any_world [of env w sel w0] have "fst (validateSelector env w0 sel) = r"
    by simp
  with assms v show ?thesis
    by (auto simp add: clickElement_def Let_def split: option.splits)
qed

lemma clickAll_frame:
  "clickAll env page w els = (errs, page', w') \<Longrightarrow>
   cache w' = cache w \<and> files w' = files w \<and>
   adds (\<lambda>ev. preparation ev \<and> \<not> live_fetch ev) w w' \<and>
   ((\<forall>x\<in>set errs. x = None) \<longrightarrow> adds (\<lambda>ev. \<not> failed_click ev) w w')"
proof (induction env page w els arbitrary: errs page' w' rule: clickAll.induct)
  case (1 env page w)
  then show ?case by simp
next
  case (2 env page w rest)
  then show ?case by (auto split: prod.splits)
next
  case (3 env page w element rest)
  then show ?case
    by (auto split: prod.splits sum.splits dest!: clickElement_frame intro: adds_trans)
qed

lemma clickAll_not_validated:
  assumes "clickAll env page w els = (errs, page', w')"
    and "Some sel \<in> set els"
    and "fst (validateSelector env w0 sel) = Inl err \<or>
           (fst (validateSelector env w0 sel) = Inr resp \<and>
            status (response_selector resp) = Some INVALID)"
  shows "\<exists>x\<in>set errs. x \<noteq> None"
  using assms(1,2)
proof (induction els arbitrary: page w errs page' w')
  case Nil
  then show ?case by simp
next
  case (Cons element rest)
  show ?case
  proof (cases element)
    case None
    with Cons show ?thesis by (auto split: prod.splits)
  next
    case (Some el)
    show ?thesis
    proof (cases "el = sel")
      case True
      from clickElement_not_validated [OF assms(3), of page w] obtain err' w1
        where "clickElement env page w (Some sel) = (Inl err', page, w1)" by blast
      with Cons.prems Some True show ?thesis by (auto split: prod.splits)
    next
      case False
      with Cons Some show ?thesis
        by (auto split: prod.splits sum.splits)
    qed
  qed
qed

lemma lastObserved_acc: "acc \<noteq> None \<Longrightarrow> lastObserved fin i errs acc \<noteq> None"
  by (induction fin i errs acc rule: lastObserved.induct) (auto split: option.splits)

lemma lastObserved_None:
  "lastObserved fin i errs None = None \<longleftrightarrow> (\<forall>x\<in>set errs. x = None)"
proof (induction errs arbitrary: i)
  case Nil
  then show ?case by simp
next
  case (Cons x errs)
  then show ?case
    by (cases x) (auto simp add: lastObserved_acc)
qed

lemma lastObserved_mem:
  "lastObserved fin i errs acc = Some (j, err) \<Longrightarrow> Some err \<in> set errs \<or> acc = Some (j, err)"
  by (induction fin i errs acc arbitrary: j err rule: lastObserved.induct)
     (auto split: option.splits if_splits)

lemma clickErr_None: "clickErr env errs = None \<longleftrightarrow> (\<forall>x\<in>set errs. x = None)"
  by (simp add: clickErr_def lastObserved_None)

lemma clickErr_mem: "clickErr env errs = Some err \<Longrightarrow> Some err \<in> set errs"
  by (auto simp add: clickErr_def dest: lastObserved_mem)

lemma getContent_clicks_frame:
  assumes "getContent_clicks env page w req = (ce, page', w')"
  shows "cache w' = cache w \<and> files w' = files w \<and>
         adds (\<lambda>ev. preparation ev \<and> \<not> live_fetch ev) w w' \<and>
         (ce = None \<longrightarrow> adds (\<lambda>ev. \<not> failed_click ev) w w')"
  using assms
  by (auto simp add: getContent_clicks_def clickErr_None
      split: option.splits prod.splits dest!: clickAll_frame)

lemma getContent_clicks_not_validated:
  assumes "getContent_clicks env page w req = (ce, page', w')"
    and "clickBefore req = Some els"
    and "Some sel \<in> set els"
    and "fst (validateSelector env w0 sel) = Inl err \<or>
           (fst (validateSelector env w0 sel) = Inr resp \<and>
            status (response_selector resp) = Some INVALID)"
  shows "ce \<noteq> None"
proof -
  obtain errs where c: "clickAll env page w els = (errs, page', w')" and ce: "ce = clickErr env errs"
    using assms(1,2) by (auto simp add: getContent_clicks_def split: prod.splits)
  from clickAll_not_validated [OF c assms(3,4)] have "\<exists>x\<in>set errs. x \<noteq> None" .
  then show ?thesis by (simp add: ce clickErr_None)
qed

lemma loadPage_cached:
  assumes "cache w (hostname u, sha256_hex env (pathname u)) = Some html"
  shows "loadPage env w u =
           (case newPage env of
              Inl err \<Rightarrow> (Inl err, log NewPage w)
            | Inr page \<Rightarrow>
                (setContent env page html,
                 log (SetContent html)
                   (log (CacheGet (hostname u) (sha256_hex env (pathname u))) (log NewPage w))))"
  using assms by (simp add: loadPage_def Let_def split: sum.splits)

lemma loadPage_frame:
  assumes "loadPage env w u = (r, w')"
  shows "files w' = files w \<and> adds (\<lambda>ev. preparation ev \<and> \<not> failed_click ev) w w' \<and>
         (cache w (hostname u, sha256_hex env (pathname u)) \<noteq> None \<longrightarrow>
            cache w' = cache w \<and> adds (\<lambda>ev. \<not> live_fetch ev) w w')"
  using assms
  by (auto simp add: loadPage_def Let_def intro!: adds_log split: sum.splits option.splits)

lemma loadPage_resolved:
  assumes "loadPage env w u = (Inr page, w1)"
  shows "\<exists>page0 html.
           newPage env = Inr page0 \<and>
           cache w1 (hostname u, sha256_hex env (pathname u)) = Some html \<and>
           (case cache w (hostname u, sha256_hex env (pathname u)) of
              Some cachedHtml \<Rightarrow> html = cachedHtml \<and> setContent env page0 html = Inr page
            | None \<Rightarrow> goto env page0 (href u) = Inr page \<and> page_content env page = Inr html)"
  using assms
  by (auto simp add: loadPage_def Let_def split: sum.splits option.splits)

lemma readFile_cases:
  assumes "readFile env w file = (r, w')"
  shows "w' = log (ReadFile file) w \<and>
         ((\<exists>msg. r = Inl (OtherError msg)) \<or> (\<exists>data. r = Inr data \<and> read_fault env file = None))"
  using assms by (auto simp add: readFile_def Let_def split: option.splits)

lemma unlink_cases:
  assumes "unlink env w file = (r, w')"
  shows "(w' = log (Unlink file) w \<and> (\<exists>msg. r = Inl (OtherError msg)) \<and>
            (files w file = None \<or> unlink_fault env file \<noteq> None)) \<or>
         (w' = (log (Unlink file) w)\<lparr>files := (files w)(file := None)\<rparr> \<and> r = Inr () \<and>
            unlink_fault env file = None)"
  using assms by (auto simp add: unlink_def Let_def split: option.splits)

text \<open>The five ways the extraction ends.\<close>

lemma getContent_extract_cases:
  assumes "getContent_extract env page w sel p file = (r, w')"
  shows "(\<exists>err. r = Throws (External err) \<and> w' = log (TextContent p) w) \<or>
         (\<exists>err. r = Throws (External err) \<and>
                w' = log (Screenshot p file (Some err)) (log (TextContent p) w)) \<or>
         (\<exists>msg bytes. r = Throws (External (OtherError msg)) \<and>
                w' = log (ReadFile file)
                       ((log (Screenshot p file None) (log (TextContent p) w))
                          \<lparr>files := (files w)(file := Some bytes)\<rparr>)) \<or>
         (\<exists>msg bytes. r = Throws (External (OtherError msg)) \<and> unlink_fault env file \<noteq> None \<and>
                w' = log (Unlink file) (log (ReadFile file)
                       ((log (Screenshot p file None) (log (TextContent p) w))
                          \<lparr>files := (files w)(file := Some bytes)\<rparr>))) \<or>
         (\<exists>res. r = Returns res \<and>
                w' = log (Unlink file) (log (ReadFile file)
                       (log (Screenshot p file None) (log (TextContent p) w)))
                          \<lparr>files := (files w)(file := None)\<rparr>)"
  using assms
  by (auto simp add: getContent_extract_def Let_def thrown_by_def log_def
      split: sum.splits prod.splits option.splits if_splits
      dest!: readFile_cases unlink_cases)

lemma getContent_catch_cases:
  assumes "getContent_catch env w sel p u error = (r, w')"
  shows "(\<exists>t. r = Inl t) \<and>
         ((\<exists>msg. error = External (TimeoutError msg)) \<and> w' = w \<or>
          (\<forall>msg. error \<noteq> External (TimeoutError msg)) \<and>
            (\<exists>x. unlink env w (screenshotPath u) = (x, w')))"
  using assms
  by (auto simp add: getContent_catch_def
      split: thrown.splits ext_error.splits prod.splits)

subsection \<open>The stages of getContent\<close>

lemma getContent_try_stages:
  assumes "getContent_try env w req sel p u = (te, w')"
  obtains
    (load_failed) err where
      "loadPage env w u = (Inl err, w')" "te = Throws (External err)"
  | (click_failed) page w1 ce page2 where
      "loadPage env w u = (Inr page, w1)"
      "getContent_clicks env page w1 req = (Some ce, page2, w')"
      "te = Throws (Scraping ce)"
  | (extracting) page w1 page2 w2 where
      "loadPage env w u = (Inr page, w1)"
      "getContent_clicks env page w1 req = (None, page2, w2)"
      "getContent_extract env page2 w2 sel p (screenshotPath u) = (te, w')"
  using assms
  by (auto simp add: getContent_try_def split: prod.splits sum.splits option.splits)

lemma getContent_stages:
  assumes "getContent env w (Some req) = (r, w')"
  obtains
    (early) t where
      "r = Inl t" "files w' = files w" "cache w' = cache w"
      "w' = w \<or> (\<exists>text. w' = log (ValidateText text) w)"
  | (tried) sel0 p resp w1 u te w2 where
      "selector req = Some sel0" "path sel0 = Some p"
      "validateSelector env w sel0 = (Inr resp, w1)"
      "response_status resp \<noteq> GENERIC_ERROR"
      "status (response_selector resp) \<noteq> Some INVALID"
      "new_URL env (url req) = Inr u"
      "getContent_try env w1 req (response_selector resp) p u = (te, w2)"
      "(case te of
          Returns (Inr scraped) \<Rightarrow> (Inr scraped, w2)
        | Returns (Inl err) \<Rightarrow> (Inl (Scraping err), w2)
        | Throws error \<Rightarrow> getContent_catch env w2 (response_selector resp) p u error) = (r, w')"
proof -
  show thesis
  proof (cases "selector req")
    case None
    with assms have "\<exists>t. r = Inl t \<and> files w' = files w \<and> cache w' = cache w \<and>
                  (w' = w \<or> (\<exists>text. w' = log (ValidateText text) w))"
            by (auto simp add: getContent_def Let_def split: if_splits)
          then show ?thesis using early by blast
  next
    case (Some sel0)
    show ?thesis
    proof (cases "path sel0")
      case None
      with assms \<open>selector req = Some sel0\<close> have "\<exists>t. r = Inl t \<and> files w' = files w \<and> cache w' = cache w \<and>
                  (w' = w \<or> (\<exists>text. w' = log (ValidateText text) w))"
            by (auto simp add: getContent_def Let_def split: if_splits)
          then show ?thesis using early by blast
    next
      case (Some p)
      obtain v w1 where v: "validateSelector env w sel0 = (v, w1)"
        by (cases "validateSelector env w sel0")
      from validateSelector_frame [OF v]
      have fr: "cache w1 = cache w" "files w1 = files w"
        "w1 = w \<or> w1 = log (ValidateText (path_text sel0 @ '' {}'')) w" by auto
      show ?thesis
      proof (cases v)
        case (Inl err)
        with assms \<open>selector req = Some sel0\<close> Some v fr have "\<exists>t. r = Inl t \<and> files w' = files w \<and> cache w' = cache w \<and>
                  (w' = w \<or> (\<exists>text. w' = log (ValidateText text) w))"
            by (auto simp add: getContent_def Let_def split: if_splits)
          then show ?thesis using early by blast
      next
        case (Inr resp)
        show ?thesis
        proof (cases "response_status resp = GENERIC_ERROR \<or>
                      status (response_selector resp) = Some INVALID")
          case True
          with assms \<open>selector req = Some sel0\<close> Some v fr Inr have "\<exists>t. r = Inl t \<and> files w' = files w \<and> cache w' = cache w \<and>
                  (w' = w \<or> (\<exists>text. w' = log (ValidateText text) w))"
            by (auto simp add: getContent_def Let_def split: if_splits)
          then show ?thesis using early by blast
        next
          case False
          show ?thesis
          proof (cases "new_URL env (url req)")
            case (Inl msg)
            with assms \<open>selector req = Some sel0\<close> Some v fr Inr False have "\<exists>t. r = Inl t \<and> files w' = files w \<and> cache w' = cache w \<and>
                  (w' = w \<or> (\<exists>text. w' = log (ValidateText text) w))"
            by (auto simp add: getContent_def Let_def split: if_splits)
          then show ?thesis using early by blast
          next
            case u: (Inr u)
            obtain te w2 where
              t: "getContent_try env w1 req (response_selector resp) p u = (te, w2)"
              by (cases "getContent_try env w1 req (response_selector resp) p u")
            show ?thesis
            proof (rule tried [OF \<open>selector req = Some sel0\<close> Some _ _ _ u t])
              show "validateSelector env w sel0 = (Inr resp, w1)" using v Inr by simp
              show "response_status resp \<noteq> GENERIC_ERROR" using False by simp
              show "status (response_selector resp) \<noteq> Some INVALID" using False by simp
              show "(case te of
                      Returns (Inr scraped) \<Rightarrow> (Inr scraped, w2)
                    | Returns (Inl err) \<Rightarrow> (Inl (Scraping err), w2)
                    | Throws error \<Rightarrow>
                        getContent_catch env w2 (response_selector resp) p u error) = (r, w')"
                using assms \<open>selector req = Some sel0\<close> Some v Inr False u t
                by (auto simp add: getContent_def Let_def
                    split: try_end.splits sum.splits)
            qed
          qed
        qed
      qed
    qed
  qed
qed

lemma adds_set: "adds P w w' \<Longrightarrow> trace w' = trace w @ evs \<Longrightarrow> ev \<in> set evs \<Longrightarrow> P ev"
  by (auto simp add: adds_def list_all_iff)

lemma getContent_catch_frame:
  assumes "getContent_catch env w sel p u error = (r, w')"
  shows "(\<exists>t. r = Inl t) \<and> cache w' = cache w \<and>
         adds (\<lambda>ev. \<not> extraction ev \<and> \<not> live_fetch ev \<and> \<not> failed_click ev) w w' \<and>
         (\<forall>f. files w' f \<noteq> None \<longrightarrow> files w f \<noteq> None) \<and>
         (\<forall>f. f \<noteq> screenshotPath u \<longrightarrow> files w' f = files w f)"
  using getContent_catch_cases [OF assms]
  by (auto dest!: unlink_cases intro!: adds_log split: if_splits)

text \<open>
  A run of \<^verbatim>\<open>getContent\<close> either ends before the extraction, rejected, or has made every
  click with success.
\<close>

lemma getContent_dichotomy:
  assumes run: "getContent env w (Some req) = (r, w')"
  shows "((\<exists>t. r = Inl t) \<and> adds (\<lambda>ev. \<not> extraction ev) w w' \<and>
            (\<forall>f. files w' f \<noteq> None \<longrightarrow> files w f \<noteq> None)) \<or>
         (adds (\<lambda>ev. \<not> failed_click ev) w w' \<and>
            (\<forall>els sel err resp w0.
               clickBefore req = Some els \<and> Some sel \<in> set els \<longrightarrow>
               fst (validateSelector env w0 sel) \<noteq> Inl err \<and>
               \<not> (fst (validateSelector env w0 sel) = Inr resp \<and>
                  status (response_selector resp) = Some INVALID)))"
  using run
proof (cases rule: getContent_stages)
  case (early t)
  then show ?thesis by (auto intro!: adds_log)
next
  case (tried sel0 p resp w1 u te w2)
  from validateSelector_frame [OF tried(3)]
  have f1: "files w1 = files w"
    and a1: "adds (\<lambda>ev. preparation ev \<and> \<not> failed_click ev) w w1"
    by (auto intro!: adds_log)
  from tried(7) show ?thesis
  proof (cases rule: getContent_try_stages)
    case (load_failed err)
    from loadPage_frame [OF load_failed(1)]
    have f2: "files w2 = files w1"
      and a2: "adds (\<lambda>ev. preparation ev \<and> \<not> failed_click ev) w1 w2" by auto
    from tried(8) load_failed(2)
    have c: "getContent_catch env w2 (response_selector resp) p u (External err) = (r, w')"
      by simp
    from adds_trans [OF a1 a2] have "adds (\<lambda>ev. \<not> extraction ev) w w2"
      by (rule adds_mono) (case_tac ev, auto)
    moreover from getContent_catch_frame [OF c] have "adds (\<lambda>ev. \<not> extraction ev) w2 w'"
      by (auto elim: adds_mono)
    ultimately have "adds (\<lambda>ev. \<not> extraction ev) w w'" by (rule adds_trans)
    with getContent_catch_frame [OF c] f1 f2 show ?thesis by auto
  next
    case (click_failed page w1' ce page2)
    from loadPage_frame [OF click_failed(1)]
    have f2: "files w1' = files w1"
      and a2: "adds (\<lambda>ev. preparation ev \<and> \<not> failed_click ev) w1 w1'" by auto
    from getContent_clicks_frame [OF click_failed(2)]
    have f3: "files w2 = files w1'"
      and a3: "adds (\<lambda>ev. preparation ev \<and> \<not> live_fetch ev) w1' w2" by auto
    from tried(8) click_failed(3)
    have c: "getContent_catch env w2 (response_selector resp) p u (Scraping ce) = (r, w')"
      by simp
    from adds_trans [OF a1 a2] have "adds (\<lambda>ev. \<not> extraction ev) w w1'"
      by (rule adds_mono) (case_tac ev, auto)
    moreover from a3 have "adds (\<lambda>ev. \<not> extraction ev) w1' w2"
      by (rule adds_mono) (case_tac ev, auto)
    moreover from getContent_catch_frame [OF c] have "adds (\<lambda>ev. \<not> extraction ev) w2 w'"
      by (auto elim: adds_mono)
    ultimately have "adds (\<lambda>ev. \<not> extraction ev) w w'" by (blast intro: adds_trans)
    with getContent_catch_frame [OF c] f1 f2 f3 show ?thesis by auto
  next
    case (extracting page w1' page2 w2')
    from loadPage_frame [OF extracting(1)]
    have a2: "adds (\<lambda>ev. preparation ev \<and> \<not> failed_click ev) w1 w1'" by auto
    from getContent_clicks_frame [OF extracting(2)]
    have a3: "adds (\<lambda>ev. \<not> failed_click ev) w1' w2'" by auto
    from getContent_extract_cases [OF extracting(3)]
    have a4: "adds (\<lambda>ev. \<not> failed_click ev) w2' w2"
      by (auto intro!: adds_log)
    have a5: "adds (\<lambda>ev. \<not> failed_click ev) w2 w'"
    proof (cases te)
      case (Throws error)
      with tried(8) have "getContent_catch env w2 (response_selector resp) p u error = (r, w')"
        by simp
      from getContent_catch_frame [OF this] show ?thesis by (auto elim: adds_mono)
    next
      case (Returns res)
      with tried(8) show ?thesis by (auto split: sum.splits)
    qed
    from adds_trans [OF a1 a2] have "adds (\<lambda>ev. \<not> failed_click ev) w w1'"
      by (rule adds_mono) simp
    with a3 a4 a5 have "adds (\<lambda>ev. \<not> failed_click ev) w w'"
      by (blast intro: adds_trans)
    moreover have "\<forall>els sel err resp w0.
               clickBefore req = Some els \<and> Some sel \<in> set els \<longrightarrow>
               fst (validateSelector env w0 sel) \<noteq> Inl err \<and>
               \<not> (fst (validateSelector env w0 sel) = Inr resp \<and>
                  status (response_selector resp) = Some INVALID)"
      using getContent_clicks_not_validated [OF extracting(2)] by blast
    ultimately show ?thesis by blast
  qed
qed

subsection \<open>The page cache\<close>

text \<open>
  C3. When a first acquisition of an address has resolved, the cache holds markup under the
  key made of the host and of the hash of the path: the markup that was cached before, or
  the markup the first acquisition read from the live page. A second acquisition of an
  address with the same host and path, whatever its query and fragment, then creates a
  page, reads the cache and sets that markup as the content of the page: it does not
  navigate, and leaves the cache as it is.
\<close>

theorem loadPage_twice:
  assumes first: "loadPage env w u = (Inr page, w1)"
    and host: "hostname u' = hostname u"
    and path: "pathname u' = pathname u"
  shows "\<exists>page0 html.
           newPage env = Inr page0 \<and>
           cache w1 (hostname u, sha256_hex env (pathname u)) = Some html \<and>
           (case cache w (hostname u, sha256_hex env (pathname u)) of
              Some cachedHtml \<Rightarrow> html = cachedHtml
            | None \<Rightarrow> page_content env page = Inr html) \<and>
           loadPage env w1 u' =
             (setContent env page0 html,
              log (SetContent html)
                (log (CacheGet (hostname u) (sha256_hex env (pathname u))) (log NewPage w1)))"
proof -
  from loadPage_resolved [OF first] obtain page0 html where
    np: "newPage env = Inr page0" and
    c: "cache w1 (hostname u, sha256_hex env (pathname u)) = Some html" and
    h: "case cache w (hostname u, sha256_hex env (pathname u)) of
              Some cachedHtml \<Rightarrow> html = cachedHtml \<and> setContent env page0 html = Inr page
            | None \<Rightarrow> goto env page0 (href u) = Inr page \<and> page_content env page = Inr html"
    by blast
  from c host path have c': "cache w1 (hostname u', sha256_hex env (pathname u')) = Some html"
    by simp
  have "loadPage env w1 u' =
             (setContent env page0 html,
              log (SetContent html)
                (log (CacheGet (hostname u) (sha256_hex env (pathname u))) (log NewPage w1)))"
    using loadPage_cached [OF c'] np host path by simp
  moreover from h have "case cache w (hostname u, sha256_hex env (pathname u)) of
              Some cachedHtml \<Rightarrow> html = cachedHtml
            | None \<Rightarrow> page_content env page = Inr html"
    by (auto split: option.splits)
  ultimately show ?thesis using np c by blast
qed

lemma loadPage_example:
  "loadPage example_env empty_world page_url =
     (Inr ''<html>live</html>'',
      \<lparr>cache = (\<lambda>k. None)((''example.test'', ''/page'') := Some ''<html>live</html>''),
       files = (\<lambda>f. None),
       trace = [NewPage, CacheGet ''example.test'' ''/page'', Goto ''https://example.test/page'',
                ReadMarkup, CacheSet ''example.test'' ''/page'' ''<html>live</html>'']\<rparr>)"
  by (simp add: loadPage_def Let_def example_env_def empty_world_def page_url_def log_def)

theorem loadPage_twice_witness:
  "loadPage example_env (snd (loadPage example_env empty_world page_url)) page_url_query =
     (Inr ''<html>live</html>'',
      \<lparr>cache = (\<lambda>k. None)((''example.test'', ''/page'') := Some ''<html>live</html>''),
       files = (\<lambda>f. None),
       trace = [NewPage, CacheGet ''example.test'' ''/page'', Goto ''https://example.test/page'',
                ReadMarkup, CacheSet ''example.test'' ''/page'' ''<html>live</html>'',
                NewPage, CacheGet ''example.test'' ''/page'', SetContent ''<html>live</html>'']\<rparr>)"
  using loadPage_twice [of example_env empty_world page_url "''<html>live</html>''"
     "snd (loadPage example_env empty_world page_url)" page_url_query]
  by (simp add: loadPage_example) (simp add: page_url_def page_url_query_def example_env_def log_def)


lemma getContent_clicks_useCache:
  "getContent_clicks env page w (req\<lparr>useCache := flag\<rparr>) = getContent_clicks env page w req"
  by (simp add: getContent_clicks_def)

lemma getContent_try_useCache:
  "getContent_try env w (req\<lparr>useCache := flag\<rparr>) sel p u = getContent_try env w req sel p u"
  by (simp add: getContent_try_def getContent_clicks_useCache split: prod.splits sum.splits)

lemma getContent_useCache:
  "getContent env w (Some (req\<lparr>useCache := flag\<rparr>)) = getContent env w (Some req)"
  by (simp add: getContent_def getContent_try_useCache Let_def
      split: option.splits prod.splits sum.splits)

lemma getContent_cached_frame:
  assumes run: "getContent env w (Some req) = (r, w')"
    and u: "new_URL env (url req) = Inr u"
    and cached: "cache w (hostname u, sha256_hex env (pathname u)) \<noteq> None"
  shows "cache w' = cache w \<and> adds (\<lambda>ev. \<not> live_fetch ev) w w'"
  using run
proof (cases rule: getContent_stages)
  case (early t)
  then show ?thesis by (auto intro!: adds_log)
next
  case (tried sel0 p resp w1 u' te w2)
  with u have [simp]: "u' = u" by simp
  from validateSelector_frame [OF tried(3)]
  have c1: "cache w1 = cache w" and a1: "adds (\<lambda>ev. \<not> live_fetch ev) w w1"
    by (auto intro!: adds_log)
  have "cache w2 = cache w1 \<and> adds (\<lambda>ev. \<not> live_fetch ev) w1 w2"
    using tried(7)
  proof (cases rule: getContent_try_stages)
    case (load_failed err)
    from loadPage_frame [OF load_failed(1)] cached c1 show ?thesis by simp
  next
    case (click_failed page w1' ce page2)
    from loadPage_frame [OF click_failed(1)] cached c1
    have "cache w1' = cache w1" "adds (\<lambda>ev. \<not> live_fetch ev) w1 w1'" by simp_all
    moreover from getContent_clicks_frame [OF click_failed(2)]
    have "cache w2 = cache w1'" "adds (\<lambda>ev. \<not> live_fetch ev) w1' w2"
      by (auto elim: adds_mono)
    ultimately show ?thesis by (auto intro: adds_trans)
  next
    case (extracting page w1' page2 w2')
    from loadPage_frame [OF extracting(1)] cached c1
    have "cache w1' = cache w1" "adds (\<lambda>ev. \<not> live_fetch ev) w1 w1'" by simp_all
    moreover from getContent_clicks_frame [OF extracting(2)]
    have "cache w2' = cache w1'" "adds (\<lambda>ev. \<not> live_fetch ev) w1' w2'"
      by (auto elim: adds_mono)
    moreover from getContent_extract_cases [OF extracting(3)]
    have "cache w2 = cache w2'" "adds (\<lambda>ev. \<not> live_fetch ev) w2' w2"
      by (auto intro!: adds_log)
    ultimately show ?thesis by (auto intro: adds_trans)
  qed
  moreover have "cache w' = cache w2 \<and> adds (\<lambda>ev. \<not> live_fetch ev) w2 w'"
  proof (cases te)
    case (Throws error)
    with tried(8) have "getContent_catch env w2 (response_selector resp) p u error = (r, w')"
      by simp
    from getContent_catch_frame [OF this] show ?thesis by (auto elim: adds_mono)
  next
    case (Returns res)
    with tried(8) show ?thesis by (auto split: sum.splits)
  qed
  ultimately show ?thesis using c1 a1 by (auto intro: adds_trans)
qed

text \<open>
  C4, as the code has it. \<^verbatim>\<open>getContent\<close> never reads \<^verbatim>\<open>useCache\<close>: a request gives the same
  result and the same world whatever the flag. When the markup of its address is cached,
  the run fetches nothing from the web (no navigation, no read of live markup, no write to
  the cache) and the cache is left as it was.
\<close>

theorem getContent_cached_whatever_useCache:
  assumes u: "new_URL env (url req) = Inr u"
    and cached: "cache w (hostname u, sha256_hex env (pathname u)) = Some html"
  shows "getContent env w (Some (req\<lparr>useCache := flag\<rparr>)) = getContent env w (Some req) \<and>
         cache (snd (getContent env w (Some req))) = cache w \<and>
         adds (\<lambda>ev. \<not> live_fetch ev) w (snd (getContent env w (Some req)))"
proof -
  obtain r w' where run: "getContent env w (Some req) = (r, w')"
    by (cases "getContent env w (Some req)")
  from cached have "cache w (hostname u, sha256_hex env (pathname u)) \<noteq> None" by simp
  from getContent_cached_frame [OF run u this] run show ?thesis
    by (simp add: getContent_useCache)
qed

theorem getContent_cached_whatever_useCache_witness:
  "getContent example_env cached_world
     (Some ((request ''.a-good-selector'' None (Some True))\<lparr>useCache := Some False\<rparr>)) =
   getContent example_env cached_world (Some (request ''.a-good-selector'' None (Some True))) \<and>
   cache (snd (getContent example_env cached_world
                 (Some (request ''.a-good-selector'' None (Some True))))) = cache cached_world \<and>
   adds (\<lambda>ev. \<not> live_fetch ev) cached_world
     (snd (getContent example_env cached_world
             (Some (request ''.a-good-selector'' None (Some True)))))"
  using getContent_cached_whatever_useCache
          [of example_env "request ''.a-good-selector'' None (Some True)" page_url cached_world
              "''<html>cached</html>''" "Some False"]
  by (simp add: example_env_def request_def page_url_def cached_world_def)

text \<open>
  With the markup of the address in the cache, a request with \<^verbatim>\<open>useCache = false\<close> is
  served from the cache: the calls it makes include no navigation, and the cache entry is
  the one that was there.
\<close>

theorem getContent_useCache_false_counterexample:
  "getContent example_env cached_world (Some (request ''.a-good-selector'' None (Some False))) =
     (Inr (ScrapedContent ''yeah baby''
             \<lparr>path = Some ''.a-good-selector'', language = None, status = Some VALID\<rparr>
             ''data:image/gif;base64,PNG''),
      cached_world\<lparr>trace :=
        [ValidateText ''.a-good-selector {}'', NewPage, CacheGet ''example.test'' ''/page'',
         SetContent ''<html>cached</html>'', TextContent ''.a-good-selector'',
         Screenshot ''.a-good-selector'' ''./example.test-page.png'' None,
         ReadFile ''./example.test-page.png'', Unlink ''./example.test-page.png'']\<rparr>)"
  by (simp add: getContent_def getContent_try_def getContent_clicks_def getContent_extract_def
      validateSelector_def unsupported_language_def path_text_def loadPage_def readFile_def
      unlink_def screenshotPath_def baseName_def thrown_by_def log_def Let_def
      request_def css_selector_def example_env_def cached_world_def)

lemma empty_world_fields:
  "trace empty_world = []" "files empty_world f = None" "cache empty_world k = None"
  by (simp_all add: empty_world_def)

subsection \<open>Failing clicks\<close>

text \<open>
  C2. Take any run of \<^verbatim>\<open>getContent\<close> and the calls \<open>evs\<close> it makes. If an entry of
  \<^verbatim>\<open>clickBefore\<close> fails validation (\<^verbatim>\<open>validateSelector\<close> rejects it or finds it invalid), or
  if a click of the run timed out, then the promise is rejected, none of the calls reads the
  text, takes the screenshot or reads the file back, and no file exists afterwards that did
  not exist before.
\<close>

theorem getContent_click_failure:
  assumes run: "getContent env w (Some req) = (r, w')"
    and evs: "trace w' = trace w @ evs"
    and failure:
      "(\<exists>els sel. clickBefore req = Some els \<and> Some sel \<in> set els \<and>
          ((\<exists>err. fst (validateSelector env w sel) = Inl err) \<or>
           (\<exists>resp. fst (validateSelector env w sel) = Inr resp \<and>
                   status (response_selector resp) = Some INVALID))) \<or>
       (\<exists>p msg. Click p (Some (TimeoutError msg)) \<in> set evs)"
  shows "(\<exists>t. r = Inl t) \<and> (\<forall>ev\<in>set evs. \<not> extraction ev) \<and>
         (\<forall>f. files w' f \<noteq> None \<longrightarrow> files w f \<noteq> None)"
proof -
  have "\<not> (adds (\<lambda>ev. \<not> failed_click ev) w w' \<and>
            (\<forall>els sel err resp w0.
               clickBefore req = Some els \<and> Some sel \<in> set els \<longrightarrow>
               fst (validateSelector env w0 sel) \<noteq> Inl err \<and>
               \<not> (fst (validateSelector env w0 sel) = Inr resp \<and>
                  status (response_selector resp) = Some INVALID)))"
  proof
    assume a: "adds (\<lambda>ev. \<not> failed_click ev) w w' \<and>
            (\<forall>els sel err resp w0.
               clickBefore req = Some els \<and> Some sel \<in> set els \<longrightarrow>
               fst (validateSelector env w0 sel) \<noteq> Inl err \<and>
               \<not> (fst (validateSelector env w0 sel) = Inr resp \<and>
                  status (response_selector resp) = Some INVALID))"
    from failure show False
    proof
      assume "\<exists>els sel. clickBefore req = Some els \<and> Some sel \<in> set els \<and>
          ((\<exists>err. fst (validateSelector env w sel) = Inl err) \<or>
           (\<exists>resp. fst (validateSelector env w sel) = Inr resp \<and>
                   status (response_selector resp) = Some INVALID))"
      with a show False by blast
    next
      assume "\<exists>p msg. Click p (Some (TimeoutError msg)) \<in> set evs"
      then obtain p msg where "Click p (Some (TimeoutError msg)) \<in> set evs" by blast
      with a evs have "\<not> failed_click (Click p (Some (TimeoutError msg)))"
        by (blast dest: adds_set)
      then show False by simp
    qed
  qed
  with getContent_dichotomy [OF run]
  have "(\<exists>t. r = Inl t) \<and> adds (\<lambda>ev. \<not> extraction ev) w w' \<and>
            (\<forall>f. files w' f \<noteq> None \<longrightarrow> files w f \<noteq> None)" by blast
  with evs show ?thesis by (blast dest: adds_set)
qed

lemma getContent_missing_popup_example:
  "getContent example_env empty_world
     (Some (request ''.a-good-selector'' (Some [Some (css_selector ''.missing'')]) (Some True))) =
     (Inl (Scraping (ScrapingError ''the selector .missing could not be found'' ELEMENT_NOT_FOUND
             (Some \<lparr>path = Some ''.missing'', language = None, status = Some VALID\<rparr>))),
      \<lparr>cache = (\<lambda>k. None)((''example.test'', ''/page'') := Some ''<html>live</html>''),
       files = (\<lambda>f. None),
       trace =
        [ValidateText ''.a-good-selector {}'', NewPage, CacheGet ''example.test'' ''/page'',
         Goto ''https://example.test/page'', ReadMarkup,
         CacheSet ''example.test'' ''/page'' ''<html>live</html>'',
         ValidateText ''.missing {}'',
         Click ''.missing'' (Some (TimeoutError ''Timeout 1000ms exceeded'')),
         Unlink ''./example.test-page.png'']\<rparr>)"
  by (simp add: getContent_def getContent_try_def getContent_clicks_def getContent_catch_def
      clickElement_def clickErr_def
      validateSelector_def unsupported_language_def path_text_def loadPage_def
      unlink_def screenshotPath_def baseName_def thrown_by_def log_def Let_def
      request_def css_selector_def example_env_def empty_world_def)

theorem getContent_click_failure_witness:
  "(\<exists>t. fst (getContent example_env empty_world
     (Some (request ''.a-good-selector'' (Some [Some (css_selector ''.missing'')]) (Some True)))) = Inl t) \<and>
   list_all (\<lambda>ev. \<not> extraction ev) (trace (snd (getContent example_env empty_world
     (Some (request ''.a-good-selector'' (Some [Some (css_selector ''.missing'')]) (Some True)))))) \<and>
   (\<forall>f. files (snd (getContent example_env empty_world
     (Some (request ''.a-good-selector'' (Some [Some (css_selector ''.missing'')]) (Some True))))) f = None)"
  using getContent_click_failure [OF getContent_missing_popup_example,
          of "[ValidateText ''.a-good-selector {}'', NewPage, CacheGet ''example.test'' ''/page'',
         Goto ''https://example.test/page'', ReadMarkup,
         CacheSet ''example.test'' ''/page'' ''<html>live</html>'',
         ValidateText ''.missing {}'',
         Click ''.missing'' (Some (TimeoutError ''Timeout 1000ms exceeded'')),
         Unlink ''./example.test-page.png'']"]
  by (simp add: getContent_missing_popup_example empty_world_fields)

subsection \<open>The primary selector\<close>

text \<open>
  C5, as the code has it. A request whose primary selector has no path is rejected by the
  guard at the top of \<^verbatim>\<open>getContent\<close> with the generic status \<open>ERROR\<close>, the world untouched.
  A request whose primary selector has a path (the empty one included) and a supported
  language, and which the checker finds invalid, is rejected with \<open>INVALID_SELECTOR\<close>;
  the call of the checker is the only call made: no page is launched, navigated or read.
\<close>

theorem getContent_invalid_primary_selector:
  assumes sel: "selector req = Some sel0"
  shows "(path sel0 = None \<longrightarrow>
            getContent env w (Some req) =
              (Inl (Scraping (ScrapingError ''invalid call'' ERROR None)), w)) \<and>
         (\<forall>p. path sel0 = Some p \<and> (language sel0 = None \<or> language sel0 = Some ''css'') \<and>
              validateText env (p @ '' {}'') = Inr False \<and>
              (\<forall>s errors. validity_status env s errors \<noteq> GENERIC_ERROR) \<longrightarrow>
            getContent env w (Some req) =
              (Inl (Scraping (ScrapingError
                      (''Invalid selector '' @ String_of_selector env (sel0\<lparr>status := Some INVALID\<rparr>))
                      INVALID_SELECTOR (Some (sel0\<lparr>status := Some INVALID\<rparr>)))),
               log (ValidateText (p @ '' {}'')) w))"
proof (intro conjI impI allI)
  assume "path sel0 = None"
  with sel show "getContent env w (Some req) =
              (Inl (Scraping (ScrapingError ''invalid call'' ERROR None)), w)"
    by (simp add: getContent_def)
next
  fix p
  assume a: "path sel0 = Some p \<and> (language sel0 = None \<or> language sel0 = Some ''css'') \<and>
              validateText env (p @ '' {}'') = Inr False \<and>
              (\<forall>s errors. validity_status env s errors \<noteq> GENERIC_ERROR)"
  then have ul: "unsupported_language sel0 = None"
    by (auto simp add: unsupported_language_def)
  from a have pt: "path_text sel0 = p" by (simp add: path_text_def)
  from a sel show "getContent env w (Some req) =
              (Inl (Scraping (ScrapingError
                      (''Invalid selector '' @ String_of_selector env (sel0\<lparr>status := Some INVALID\<rparr>))
                      INVALID_SELECTOR (Some (sel0\<lparr>status := Some INVALID\<rparr>)))),
               log (ValidateText (p @ '' {}'')) w)"
    by (simp add: getContent_def validateSelector_checked [OF ul] pt Let_def)
qed

text \<open>A primary selector without a path: the status is \<open>ERROR\<close>, not \<open>INVALID_SELECTOR\<close>.\<close>

theorem getContent_undefined_path_counterexample:
  "getContent example_env empty_world
     (Some \<lparr>selector = Some \<lparr>path = None, language = None, status = None\<rparr>,
            url = ''https://example.test/page'', clickBefore = None, useCache = None\<rparr>) =
     (Inl (Scraping (ScrapingError ''invalid call'' ERROR None)), empty_world)"
  by (simp add: getContent_def)

theorem getContent_invalid_primary_selector_witness:
  "getContent example_env empty_world
     (Some \<lparr>selector = Some \<lparr>path = None, language = Some ''css'', status = None\<rparr>,
            url = ''https://example.test/page'', clickBefore = None, useCache = None\<rparr>) =
     (Inl (Scraping (ScrapingError ''invalid call'' ERROR None)), empty_world) \<and>
   getContent example_env empty_world (Some (request ''div >> p'' None None)) =
     (Inl (Scraping (ScrapingError ''Invalid selector [object Object]'' INVALID_SELECTOR
             (Some \<lparr>path = Some ''div >> p'', language = None, status = Some INVALID\<rparr>))),
      log (ValidateText ''div >> p {}'') empty_world) \<and>
   getContent example_env empty_world (Some (request '''' None None)) =
     (Inl (Scraping (ScrapingError ''Invalid selector [object Object]'' INVALID_SELECTOR
             (Some \<lparr>path = Some '''', language = None, status = Some INVALID\<rparr>))),
      log (ValidateText '' {}'') empty_world)"
  using getContent_invalid_primary_selector
          [of "\<lparr>selector = Some \<lparr>path = None, language = Some ''css'', status = None\<rparr>,
            url = ''https://example.test/page'', clickBefore = None, useCache = None\<rparr>"
              "\<lparr>path = None, language = Some ''css'', status = None\<rparr>" example_env empty_world]
        getContent_invalid_primary_selector
          [of "request ''div >> p'' None None" "css_selector ''div >> p''" example_env empty_world]
        getContent_invalid_primary_selector
          [of "request '''' None None" "css_selector ''''" example_env empty_world]
  by (simp add: request_def css_selector_def example_env_def)

subsection \<open>Entries in an unsupported language\<close>

lemma validateSelector_rejects_language:
  assumes "language sel = Some l" and "l \<noteq> ''css''"
  shows "\<exists>err. fst (validateSelector env w sel) = Inl err"
  using assms by (simp add: validateSelector_def unsupported_language_def)

text \<open>
  C10, as the code has it. For an entry with a path and a language that is defined and is
  not \<^verbatim>\<open>css\<close>, \<^verbatim>\<open>clickElement\<close> rejects with a \<^verbatim>\<open>ScrapingError\<close> of status \<open>ERROR\<close> whose
  message names the language; the world is untouched, so the validator has not been
  called. Every request with such an entry in \<^verbatim>\<open>clickBefore\<close> is rejected. When the request
  reaches the clicks and every entry that fails does so with status \<open>ERROR\<close>, the request is
  rejected with a \<^verbatim>\<open>ScrapingError\<close> of status \<open>ERROR\<close>.
\<close>

theorem clickElement_unsupported_language:
  assumes p: "path sel = Some p" and l: "language sel = Some l" and ncss: "l \<noteq> ''css''"
  shows "clickElement env page w (Some sel) =
           (Inl (ScrapingError
                   (''Unsupported language '' @ l @ '', only CSS is currently supported'')
                   ERROR (Some sel)), page, w) \<and>
         (\<forall>req els. clickBefore req = Some els \<and> Some sel \<in> set els \<longrightarrow>
            (\<exists>t. fst (getContent env w (Some req)) = Inl t)) \<and>
         (\<forall>req els sel0 p0 resp w1 u page1 w2 errs page2 w3.
            selector req = Some sel0 \<and> path sel0 = Some p0 \<and>
            validateSelector env w sel0 = (Inr resp, w1) \<and>
            response_status resp \<noteq> GENERIC_ERROR \<and>
            status (response_selector resp) \<noteq> Some INVALID \<and>
            new_URL env (url req) = Inr u \<and>
            loadPage env w1 u = (Inr page1, w2) \<and>
            clickBefore req = Some els \<and> Some sel \<in> set els \<and>
            clickAll env page1 w2 els = (errs, page2, w3) \<and>
            (\<forall>err. Some err \<in> set errs \<longrightarrow> error_status err = ERROR) \<longrightarrow>
            (\<exists>msg s. fst (getContent env w (Some req)) = Inl (Scraping (ScrapingError msg ERROR s))))"
proof (intro conjI allI impI)
  from l ncss have "unsupported_language sel = Some l"
    by (simp add: unsupported_language_def)
  with p show "clickElement env page w (Some sel) =
           (Inl (ScrapingError
                   (''Unsupported language '' @ l @ '', only CSS is currently supported'')
                   ERROR (Some sel)), page, w)"
    by (simp add: clickElement_def)
next
  fix req :: IScrapingRequest and els
  assume a: "clickBefore req = Some els \<and> Some sel \<in> set els"
  obtain r w' where run: "getContent env w (Some req) = (r, w')"
    by (cases "getContent env w (Some req)")
  from validateSelector_rejects_language [OF l ncss] obtain err
    where "fst (validateSelector env w sel) = Inl err" by blast
  with a getContent_dichotomy [OF run] have "\<exists>t. r = Inl t" by blast
  with run show "\<exists>t. fst (getContent env w (Some req)) = Inl t" by simp
next
  fix req :: IScrapingRequest and els sel0 p0 resp w1 u page1 w2 errs page2 w3
  assume a: "selector req = Some sel0 \<and> path sel0 = Some p0 \<and>
            validateSelector env w sel0 = (Inr resp, w1) \<and>
            response_status resp \<noteq> GENERIC_ERROR \<and>
            status (response_selector resp) \<noteq> Some INVALID \<and>
            new_URL env (url req) = Inr u \<and>
            loadPage env w1 u = (Inr page1, w2) \<and>
            clickBefore req = Some els \<and> Some sel \<in> set els \<and>
            clickAll env page1 w2 els = (errs, page2, w3) \<and>
            (\<forall>err. Some err \<in> set errs \<longrightarrow> error_status err = ERROR)"
  from validateSelector_rejects_language [OF l ncss] obtain err
    where v: "fst (validateSelector env w sel) = Inl err" by blast
  from a have c: "clickAll env page1 w2 els = (errs, page2, w3)" and m: "Some sel \<in> set els"
    by simp_all
  have "\<exists>x\<in>set errs. x \<noteq> None"
    by (rule clickAll_not_validated [OF c m]) (rule disjI1, rule v)
  then have "clickErr env errs \<noteq> None" by (simp add: clickErr_None)
  then obtain ce where ce: "clickErr env errs = Some ce" by blast
  from clickErr_mem [OF ce] a have st: "error_status ce = ERROR" by blast
  from a ce have "fst (getContent env w (Some req)) = Inl (Scraping ce)"
    by (simp add: getContent_def getContent_try_def getContent_clicks_def getContent_catch_def
        split: prod.splits)
  with st show "\<exists>msg s. fst (getContent env w (Some req)) = Inl (Scraping (ScrapingError msg ERROR s))"
    by (cases ce) auto
qed

lemma getContent_xpath_popup_example:
  "getContent example_env empty_world
     (Some (request ''.a-good-selector'' (Some [Some xpath_selector]) (Some True))) =
     (Inl (Scraping (ScrapingError ''Unsupported language xpath, only CSS is currently supported''
             ERROR (Some xpath_selector))),
      \<lparr>cache = (\<lambda>k. None)((''example.test'', ''/page'') := Some ''<html>live</html>''),
       files = (\<lambda>f. None),
       trace =
        [ValidateText ''.a-good-selector {}'', NewPage, CacheGet ''example.test'' ''/page'',
         Goto ''https://example.test/page'', ReadMarkup,
         CacheSet ''example.test'' ''/page'' ''<html>live</html>'',
         Unlink ''./example.test-page.png'']\<rparr>)"
  by (simp add: getContent_def getContent_try_def getContent_clicks_def getContent_catch_def
      clickElement_def clickErr_def xpath_selector_def
      validateSelector_def unsupported_language_def path_text_def loadPage_def
      unlink_def screenshotPath_def baseName_def thrown_by_def log_def Let_def
      request_def css_selector_def example_env_def empty_world_def)

theorem clickElement_unsupported_language_witness:
  "clickElement example_env ''<html/>'' empty_world (Some xpath_selector) =
     (Inl (ScrapingError ''Unsupported language xpath, only CSS is currently supported''
             ERROR (Some xpath_selector)), ''<html/>'', empty_world) \<and>
   (\<exists>t. fst (getContent example_env empty_world
               (Some (request ''.a-good-selector'' (Some [Some xpath_selector]) (Some True)))) =
         Inl t) \<and>
   (\<exists>msg s. fst (getContent example_env empty_world
               (Some (request ''.a-good-selector'' (Some [Some xpath_selector]) (Some True)))) =
         Inl (Scraping (ScrapingError msg ERROR s)))"
proof -
  have p: "path xpath_selector = Some ''//button''"
    and l: "language xpath_selector = Some ''xpath''" and n: "''xpath'' \<noteq> ''css''"
    by (simp_all add: xpath_selector_def)
  note t = clickElement_unsupported_language [OF p l n, of example_env _ empty_world]
  from t [of "''<html/>''"] have 1: "clickElement example_env ''<html/>'' empty_world (Some xpath_selector) =
     (Inl (ScrapingError ''Unsupported language xpath, only CSS is currently supported''
             ERROR (Some xpath_selector)), ''<html/>'', empty_world)" by simp
  from t [of "''<html/>''"] have 2: "\<exists>t. fst (getContent example_env empty_world
               (Some (request ''.a-good-selector'' (Some [Some xpath_selector]) (Some True)))) =
         Inl t"
    by (simp add: request_def)
  have 3: "\<exists>msg s. fst (getContent example_env empty_world
               (Some (request ''.a-good-selector'' (Some [Some xpath_selector]) (Some True)))) =
         Inl (Scraping (ScrapingError msg ERROR s))"
  proof (rule t [of "''<html/>''", THEN conjunct2, THEN conjunct2, rule_format,
        where els = "[Some xpath_selector]" and ?sel0.0 = "css_selector ''.a-good-selector''"
          and ?p0.0 = "''.a-good-selector''"
          and resp = "DataSelectorValidityResponse
              \<lparr>path = Some ''.a-good-selector'', language = None, status = Some VALID\<rparr>
              [''error parsing '' @ [CHR 0x27] @ ''.a-good-selector'' @ [CHR 0x27]] GENERIC_SUCCESS"
          and ?w1.0 = "log (ValidateText ''.a-good-selector {}'') empty_world"
          and u = page_url and ?page1.0 = "''<html>live</html>''"
          and ?w2.0 = "snd (loadPage example_env (log (ValidateText ''.a-good-selector {}'') empty_world) page_url)"
          and errs = "[Some (ScrapingError ''Unsupported language xpath, only CSS is currently supported''
             ERROR (Some xpath_selector))]" and ?page2.0 = "''<html>live</html>''"
          and ?w3.0 = "snd (loadPage example_env (log (ValidateText ''.a-good-selector {}'') empty_world) page_url)"])
    show "selector (request ''.a-good-selector'' (Some [Some xpath_selector]) (Some True)) =
            Some (css_selector ''.a-good-selector'') \<and>
          path (css_selector ''.a-good-selector'') = Some ''.a-good-selector'' \<and>
          validateSelector example_env empty_world (css_selector ''.a-good-selector'') =
            (Inr (DataSelectorValidityResponse
              \<lparr>path = Some ''.a-good-selector'', language = None, status = Some VALID\<rparr>
              [''error parsing '' @ [CHR 0x27] @ ''.a-good-selector'' @ [CHR 0x27]] GENERIC_SUCCESS),
             log (ValidateText ''.a-good-selector {}'') empty_world) \<and>
          response_status (DataSelectorValidityResponse
              \<lparr>path = Some ''.a-good-selector'', language = None, status = Some VALID\<rparr>
              [''error parsing '' @ [CHR 0x27] @ ''.a-good-selector'' @ [CHR 0x27]] GENERIC_SUCCESS)
             \<noteq> GENERIC_ERROR \<and>
          status (response_selector (DataSelectorValidityResponse
              \<lparr>path = Some ''.a-good-selector'', language = None, status = Some VALID\<rparr>
              [''error parsing '' @ [CHR 0x27] @ ''.a-good-selector'' @ [CHR 0x27]] GENERIC_SUCCESS))
             \<noteq> Some INVALID \<and>
          new_URL example_env (url (request ''.a-good-selector'' (Some [Some xpath_selector]) (Some True)))
             = Inr page_url \<and>
          loadPage example_env (log (ValidateText ''.a-good-selector {}'') empty_world) page_url =
             (Inr ''<html>live</html>'',
              snd (loadPage example_env (log (ValidateText ''.a-good-selector {}'') empty_world) page_url)) \<and>
          clickBefore (request ''.a-good-selector'' (Some [Some xpath_selector]) (Some True)) =
             Some [Some xpath_selector] \<and>
          Some xpath_selector \<in> set [Some xpath_selector] \<and>
          clickAll example_env ''<html>live</html>''
             (snd (loadPage example_env (log (ValidateText ''.a-good-selector {}'') empty_world) page_url))
             [Some xpath_selector] =
             ([Some (ScrapingError ''Unsupported language xpath, only CSS is currently supported''
                 ERROR (Some xpath_selector))], ''<html>live</html>'',
              snd (loadPage example_env (log (ValidateText ''.a-good-selector {}'') empty_world) page_url)) \<and>
          (\<forall>err. Some err \<in> set [Some (ScrapingError ''Unsupported language xpath, only CSS is currently supported''
             ERROR (Some xpath_selector))] \<longrightarrow> error_status err = ERROR)"
      by (simp add: request_def css_selector_def validateSelector_def unsupported_language_def
          path_text_def Let_def example_env_def page_url_def loadPage_def clickElement_def
          xpath_selector_def empty_world_def log_def)
  qed
  from 1 2 3 show ?thesis by blast
qed

text \<open>
  Two failing entries: the first in an unsupported language, the second invalid CSS. The
  second failure is the one observed last, and the request is rejected with
  \<open>INVALID_SELECTOR\<close>.
\<close>

theorem getContent_unsupported_language_counterexample:
  "fst (getContent example_env empty_world
     (Some (request ''.a-good-selector''
              (Some [Some xpath_selector, Some (css_selector ''div >> p'')]) (Some True)))) =
     Inl (Scraping (ScrapingError ''Invalid selector [object Object]'' INVALID_SELECTOR
             (Some \<lparr>path = Some ''div >> p'', language = None, status = Some INVALID\<rparr>)))"
  by (simp add: getContent_def getContent_try_def getContent_clicks_def getContent_catch_def
      clickElement_def clickErr_def xpath_selector_def
      validateSelector_def unsupported_language_def path_text_def loadPage_def
      unlink_def screenshotPath_def baseName_def thrown_by_def log_def Let_def
      request_def css_selector_def example_env_def empty_world_def)

subsection \<open>Cleaning up the screenshot\<close>

lemma cleanup_after_preparation:
  assumes pre: "adds preparation w w0"
    and suffix: "trace w' = trace w0 @ evs1"
    and ok: "\<forall>q f. Screenshot q f None \<in> set evs1 \<longrightarrow> Unlink f \<in> set evs1 \<and> Q f"
    and evs: "trace w' = trace w @ evs"
  shows "\<forall>q f. Screenshot q f None \<in> set evs \<longrightarrow> Unlink f \<in> set evs \<and> Q f"
proof -
  from pre obtain evs0 where 0: "trace w0 = trace w @ evs0" and p: "list_all preparation evs0"
    by (auto simp add: adds_def)
  from 0 suffix evs have e: "evs = evs0 @ evs1" by simp
  from p have "\<And>q f. Screenshot q f None \<notin> set evs0"
    by (auto simp add: list_all_iff)
  with ok e show ?thesis by auto
qed

lemma getContent_catch_cleanup:
  assumes "getContent_catch env w0 sel p u error = (r, w')"
  shows "\<exists>evs1. trace w' = trace w0 @ evs1 \<and>
           (\<forall>q f. Screenshot q f None \<in> set evs1 \<longrightarrow>
              Unlink f \<in> set evs1 \<and> (unlink_fault env f = None \<longrightarrow> files w' f = None)) \<and>
           (\<forall>f. files w0 f = None \<longrightarrow> files w' f = None)"
  using getContent_catch_cases [OF assms]
  by (auto dest!: unlink_cases simp add: log_def)

lemma getContent_extract_cleanup:
  assumes e: "getContent_extract env page w0 sel p (screenshotPath u) = (te, w2)"
    and f: "(case te of
               Returns (Inr scraped) \<Rightarrow> (Inr scraped, w2)
             | Returns (Inl err) \<Rightarrow> (Inl (Scraping err), w2)
             | Throws error \<Rightarrow> getContent_catch env w2 sel p u error) = (r, w')"
  shows "\<exists>evs1. trace w' = trace w0 @ evs1 \<and>
           (\<forall>q f. Screenshot q f None \<in> set evs1 \<longrightarrow>
              Unlink f \<in> set evs1 \<and> (unlink_fault env f = None \<longrightarrow> files w' f = None)) \<and>
           (\<forall>f. files w0 f = None \<and> unlink_fault env f = None \<longrightarrow> files w' f = None)"
proof (cases te)
  case (Returns res)
  with f have w: "w' = w2" by (auto split: sum.splits)
  from getContent_extract_cases [OF e] Returns show ?thesis
    by (auto simp add: w log_def)
next
  case (Throws error)
  with f have c: "getContent_catch env w2 sel p u error = (r, w')" by simp
  from getContent_extract_cases [OF e] Throws
  consider (no_text) err where "error = External err" "w2 = log (TextContent p) w0"
    | (no_shot) err where "error = External err"
        "w2 = log (Screenshot p (screenshotPath u) (Some err)) (log (TextContent p) w0)"
    | (written) msg bytes where "error = External (OtherError msg)"
        "w2 = log (ReadFile (screenshotPath u))
                ((log (Screenshot p (screenshotPath u) None) (log (TextContent p) w0))
                   \<lparr>files := (files w0)(screenshotPath u := Some bytes)\<rparr>) \<or>
         w2 = log (Unlink (screenshotPath u)) (log (ReadFile (screenshotPath u))
                ((log (Screenshot p (screenshotPath u) None) (log (TextContent p) w0))
                   \<lparr>files := (files w0)(screenshotPath u := Some bytes)\<rparr>))"
    by auto
  then show ?thesis
  proof cases
    case no_text
    with getContent_catch_cleanup [OF c] show ?thesis
      by (auto simp add: log_def)
  next
    case no_shot
    with getContent_catch_cleanup [OF c] show ?thesis
      by (auto simp add: log_def)
  next
    case written
    with getContent_catch_cases [OF c] obtain x where "unlink env w2 (screenshotPath u) = (x, w')"
      by auto
    from unlink_cases [OF this] written(2) show ?thesis
      by (auto simp add: log_def)
  qed
qed

lemma getContent_catch_swallows:
  "fst (getContent_catch (env\<lparr>unlink_fault := faults\<rparr>) w2 sel p u error) =
   fst (getContent_catch env w3 sel p u error)"
  by (simp add: getContent_catch_def split: thrown.splits ext_error.splits prod.splits)

lemma getContent_cleanup_lemma:
  assumes run: "getContent env w (Some req) = (r, w')"
  shows "\<exists>w0 evs1. adds preparation w w0 \<and> files w0 = files w \<and> trace w' = trace w0 @ evs1 \<and>
           (\<forall>q f. Screenshot q f None \<in> set evs1 \<longrightarrow>
              Unlink f \<in> set evs1 \<and> (unlink_fault env f = None \<longrightarrow> files w' f = None)) \<and>
           (\<forall>f. files w0 f = None \<and> unlink_fault env f = None \<longrightarrow> files w' f = None)"
  using run
proof (cases rule: getContent_stages)
  case (early t)
  then have "adds preparation w w' \<and> files w' = files w \<and> trace w' = trace w' @ [] \<and>
           (\<forall>q f. Screenshot q f None \<in> set [] \<longrightarrow>
              Unlink f \<in> set [] \<and> (unlink_fault env f = None \<longrightarrow> files w' f = None)) \<and>
           (\<forall>f. files w' f = None \<and> unlink_fault env f = None \<longrightarrow> files w' f = None)"
    by (auto intro!: adds_log)
  then show ?thesis by blast
next
  case (tried sel0 p resp w1 u te w2)
  from validateSelector_frame [OF tried(3)]
  have f1: "files w1 = files w" and a1: "adds preparation w w1"
    by (auto intro!: adds_log)
  from tried(7) show ?thesis
  proof (cases rule: getContent_try_stages)
    case (load_failed err)
    from loadPage_frame [OF load_failed(1)]
    have f2: "files w2 = files w1" and a2: "adds preparation w1 w2"
      by (auto elim: adds_mono)
    from tried(8) load_failed(2)
    have c: "getContent_catch env w2 (response_selector resp) p u (External err) = (r, w')"
      by simp
    from getContent_catch_cleanup [OF c] obtain evs1 where
      "trace w' = trace w2 @ evs1 \<and>
       (\<forall>q f. Screenshot q f None \<in> set evs1 \<longrightarrow>
              Unlink f \<in> set evs1 \<and> (unlink_fault env f = None \<longrightarrow> files w' f = None)) \<and>
       (\<forall>f. files w2 f = None \<longrightarrow> files w' f = None)" by blast
    with adds_trans [OF a1 a2] f1 f2
    have "adds preparation w w2 \<and> files w2 = files w \<and> trace w' = trace w2 @ evs1 \<and>
           (\<forall>q f. Screenshot q f None \<in> set evs1 \<longrightarrow>
              Unlink f \<in> set evs1 \<and> (unlink_fault env f = None \<longrightarrow> files w' f = None)) \<and>
           (\<forall>f. files w2 f = None \<and> unlink_fault env f = None \<longrightarrow> files w' f = None)"
      by simp
    then show ?thesis by blast
  next
    case (click_failed page w1' ce page2)
    from loadPage_frame [OF click_failed(1)]
    have f2: "files w1' = files w1" and a2: "adds preparation w1 w1'"
      by (auto elim: adds_mono)
    from getContent_clicks_frame [OF click_failed(2)]
    have f3: "files w2 = files w1'" and a3: "adds preparation w1' w2"
      by (auto elim: adds_mono)
    from tried(8) click_failed(3)
    have c: "getContent_catch env w2 (response_selector resp) p u (Scraping ce) = (r, w')"
      by simp
    from a1 a2 a3 have a: "adds preparation w w2" by (blast intro: adds_trans)
    from getContent_catch_cleanup [OF c] obtain evs1 where
      "trace w' = trace w2 @ evs1 \<and>
       (\<forall>q f. Screenshot q f None \<in> set evs1 \<longrightarrow>
              Unlink f \<in> set evs1 \<and> (unlink_fault env f = None \<longrightarrow> files w' f = None)) \<and>
       (\<forall>f. files w2 f = None \<longrightarrow> files w' f = None)" by blast
    with a f1 f2 f3
    have "adds preparation w w2 \<and> files w2 = files w \<and> trace w' = trace w2 @ evs1 \<and>
           (\<forall>q f. Screenshot q f None \<in> set evs1 \<longrightarrow>
              Unlink f \<in> set evs1 \<and> (unlink_fault env f = None \<longrightarrow> files w' f = None)) \<and>
           (\<forall>f. files w2 f = None \<and> unlink_fault env f = None \<longrightarrow> files w' f = None)"
      by simp
    then show ?thesis by blast
  next
    case (extracting page w1' page2 w2')
    from loadPage_frame [OF extracting(1)]
    have f2: "files w1' = files w1" and a2: "adds preparation w1 w1'"
      by (auto elim: adds_mono)
    from getContent_clicks_frame [OF extracting(2)]
    have f3: "files w2' = files w1'" and a3: "adds preparation w1' w2'"
      by (auto elim: adds_mono)
    from a1 a2 a3 have a: "adds preparation w w2'" by (blast intro: adds_trans)
    from getContent_extract_cleanup [OF extracting(3) tried(8)] obtain evs1 where
      "trace w' = trace w2' @ evs1 \<and>
       (\<forall>q f. Screenshot q f None \<in> set evs1 \<longrightarrow>
              Unlink f \<in> set evs1 \<and> (unlink_fault env f = None \<longrightarrow> files w' f = None)) \<and>
       (\<forall>f. files w2' f = None \<and> unlink_fault env f = None \<longrightarrow> files w' f = None)" by blast
    with a f1 f2 f3
    have "adds preparation w w2' \<and> files w2' = files w \<and> trace w' = trace w2' @ evs1 \<and>
           (\<forall>q f. Screenshot q f None \<in> set evs1 \<longrightarrow>
              Unlink f \<in> set evs1 \<and> (unlink_fault env f = None \<longrightarrow> files w' f = None)) \<and>
           (\<forall>f. files w2' f = None \<and> unlink_fault env f = None \<longrightarrow> files w' f = None)"
      by simp
    then show ?thesis by blast
  qed
qed

text \<open>
  C1, as the code has it. Take any run of \<^verbatim>\<open>getContent\<close> and the calls \<open>evs\<close> it makes.
  Whatever the result (success, no content, any other failure): the file of a screenshot
  the run has written no longer exists afterwards, whatever stood at its path before,
  provided deleting a file there does not fail; and a path where no file was before and
  where deleting does not fail holds no file afterwards. The delete is attempted on every
  run that has written the screenshot: a screenshot call that resolved is followed by an
  \<^verbatim>\<open>unlink\<close> of its file. The result of the \<^verbatim>\<open>catch\<close> block does not depend on what its
  \<^verbatim>\<open>unlink\<close> does: a failure of that delete is swallowed.
\<close>

theorem getContent_cleanup:
  assumes run: "getContent env w (Some req) = (r, w')"
    and evs: "trace w' = trace w @ evs"
  shows "(\<forall>q f. Screenshot q f None \<in> set evs \<and> unlink_fault env f = None \<longrightarrow>
            files w' f = None) \<and>
         (\<forall>f. files w f = None \<and> unlink_fault env f = None \<longrightarrow> files w' f = None) \<and>
         (\<forall>q f. Screenshot q f None \<in> set evs \<longrightarrow> Unlink f \<in> set evs) \<and>
         (\<forall>faults w2 w3 sel p u error.
            fst (getContent_catch (env\<lparr>unlink_fault := faults\<rparr>) w2 sel p u error) =
            fst (getContent_catch env w3 sel p u error))"
proof -
  from getContent_cleanup_lemma [OF run] obtain w0 evs1 where
    pre: "adds preparation w w0" and f0: "files w0 = files w" and
    suffix: "trace w' = trace w0 @ evs1" and
    ok: "\<forall>q f. Screenshot q f None \<in> set evs1 \<longrightarrow>
           Unlink f \<in> set evs1 \<and> (unlink_fault env f = None \<longrightarrow> files w' f = None)" and
    clean: "\<forall>f. files w0 f = None \<and> unlink_fault env f = None \<longrightarrow> files w' f = None"
    by blast
  from clean f0 have 2: "\<forall>f. files w f = None \<and> unlink_fault env f = None \<longrightarrow> files w' f = None"
    by simp
  from cleanup_after_preparation [OF pre suffix ok evs]
  have 1: "\<forall>q f. Screenshot q f None \<in> set evs \<and> unlink_fault env f = None \<longrightarrow>
            files w' f = None"
    and 3: "\<forall>q f. Screenshot q f None \<in> set evs \<longrightarrow> Unlink f \<in> set evs"
    by blast+
  have 4: "\<forall>faults w2 w3 sel p u error.
            fst (getContent_catch (env\<lparr>unlink_fault := faults\<rparr>) w2 sel p u error) =
            fst (getContent_catch env w3 sel p u error)"
    by (simp add: getContent_catch_swallows)
  from 1 2 3 4 show ?thesis by blast
qed

lemma no_file_removed: "(\<lambda>f. None)(file := None) = (\<lambda>f. None)"
  by (rule ext) simp

lemma getContent_absent_example:
  "getContent example_env empty_world (Some (request ''.absent'' None (Some True))) =
     (Inl (Scraping (ScrapingError ''the selector .absent could not be found'' NO_CONTENT
             (Some \<lparr>path = Some ''.absent'', language = None, status = Some VALID\<rparr>))),
      \<lparr>cache = (\<lambda>k. None)((''example.test'', ''/page'') := Some ''<html>live</html>''),
       files = (\<lambda>f. None),
       trace =
        [ValidateText ''.absent {}'', NewPage, CacheGet ''example.test'' ''/page'',
         Goto ''https://example.test/page'', ReadMarkup,
         CacheSet ''example.test'' ''/page'' ''<html>live</html>'',
         TextContent ''.absent'']\<rparr>)"
  by (simp add: getContent_def getContent_try_def getContent_clicks_def getContent_catch_def
      getContent_extract_def
      validateSelector_def unsupported_language_def path_text_def loadPage_def
      screenshotPath_def baseName_def thrown_by_def log_def Let_def
      request_def css_selector_def example_env_def empty_world_def)

lemma getContent_read_fault_example:
  "getContent (example_env\<lparr>read_fault := \<lambda>file. Some ''EMFILE: too many open files''\<rparr>)
      empty_world (Some (request ''.a-good-selector'' None (Some True))) =
     (Inl (Scraping (ScrapingError ''error Error when scraping .a-good-selector'' ERROR
             (Some \<lparr>path = Some ''.a-good-selector'', language = None, status = Some VALID\<rparr>))),
      \<lparr>cache = (\<lambda>k. None)((''example.test'', ''/page'') := Some ''<html>live</html>''),
       files = (\<lambda>f. None),
       trace =
        [ValidateText ''.a-good-selector {}'', NewPage, CacheGet ''example.test'' ''/page'',
         Goto ''https://example.test/page'', ReadMarkup,
         CacheSet ''example.test'' ''/page'' ''<html>live</html>'',
         TextContent ''.a-good-selector'',
         Screenshot ''.a-good-selector'' ''./example.test-page.png'' None,
         ReadFile ''./example.test-page.png'', Unlink ''./example.test-page.png'']\<rparr>)"
  by (simp add: getContent_def getContent_try_def getContent_clicks_def getContent_catch_def
      getContent_extract_def readFile_def unlink_def
      validateSelector_def unsupported_language_def path_text_def loadPage_def
      screenshotPath_def baseName_def thrown_by_def log_def Let_def no_file_removed
      request_def css_selector_def example_env_def empty_world_def)

lemma getContent_stale_file_example:
  "getContent example_env stale_world (Some (request ''.a-good-selector'' None (Some True))) =
     (Inr (ScrapedContent ''yeah baby''
             \<lparr>path = Some ''.a-good-selector'', language = None, status = Some VALID\<rparr>
             ''data:image/gif;base64,PNG''),
      \<lparr>cache = (\<lambda>k. None)((''example.test'', ''/page'') := Some ''<html>live</html>''),
       files = (\<lambda>f. None),
       trace =
        [ValidateText ''.a-good-selector {}'', NewPage, CacheGet ''example.test'' ''/page'',
         Goto ''https://example.test/page'', ReadMarkup,
         CacheSet ''example.test'' ''/page'' ''<html>live</html>'',
         TextContent ''.a-good-selector'',
         Screenshot ''.a-good-selector'' ''./example.test-page.png'' None,
         ReadFile ''./example.test-page.png'', Unlink ''./example.test-page.png'']\<rparr>)"
  by (auto simp add: getContent_def getContent_try_def getContent_clicks_def
      getContent_extract_def readFile_def unlink_def
      validateSelector_def unsupported_language_def path_text_def loadPage_def
      screenshotPath_def baseName_def thrown_by_def log_def Let_def
      request_def css_selector_def example_env_def stale_world_def)

theorem getContent_cleanup_witness:
  "(\<forall>f. files (snd (getContent
       (example_env\<lparr>read_fault := \<lambda>file. Some ''EMFILE: too many open files''\<rparr>)
       empty_world (Some (request ''.a-good-selector'' None (Some True))))) f = None) \<and>
   Unlink ''./example.test-page.png'' \<in> set (trace (snd (getContent
       (example_env\<lparr>read_fault := \<lambda>file. Some ''EMFILE: too many open files''\<rparr>)
       empty_world (Some (request ''.a-good-selector'' None (Some True)))))) \<and>
   files stale_world ''./example.test-page.png'' = Some ''OLD'' \<and>
   files (snd (getContent example_env stale_world
                 (Some (request ''.a-good-selector'' None (Some True)))))
     ''./example.test-page.png'' = None"
proof -
  have fault: "unlink_fault example_env ''./example.test-page.png'' = None"
    by (simp add: example_env_def)
  from getContent_cleanup [OF getContent_read_fault_example,
          of "[ValidateText ''.a-good-selector {}'', NewPage, CacheGet ''example.test'' ''/page'',
         Goto ''https://example.test/page'', ReadMarkup,
         CacheSet ''example.test'' ''/page'' ''<html>live</html>'',
         TextContent ''.a-good-selector'',
         Screenshot ''.a-good-selector'' ''./example.test-page.png'' None,
         ReadFile ''./example.test-page.png'', Unlink ''./example.test-page.png'']"]
  have 1: "(\<forall>f. files (snd (getContent
       (example_env\<lparr>read_fault := \<lambda>file. Some ''EMFILE: too many open files''\<rparr>)
       empty_world (Some (request ''.a-good-selector'' None (Some True))))) f = None) \<and>
   Unlink ''./example.test-page.png'' \<in> set (trace (snd (getContent
       (example_env\<lparr>read_fault := \<lambda>file. Some ''EMFILE: too many open files''\<rparr>)
       empty_world (Some (request ''.a-good-selector'' None (Some True))))))"
    by (simp add: getContent_read_fault_example empty_world_fields)
  have t: "trace (snd (getContent example_env stale_world
                 (Some (request ''.a-good-selector'' None (Some True))))) =
           trace stale_world @
           [ValidateText ''.a-good-selector {}'', NewPage, CacheGet ''example.test'' ''/page'',
         Goto ''https://example.test/page'', ReadMarkup,
         CacheSet ''example.test'' ''/page'' ''<html>live</html>'',
         TextContent ''.a-good-selector'',
         Screenshot ''.a-good-selector'' ''./example.test-page.png'' None,
         ReadFile ''./example.test-page.png'', Unlink ''./example.test-page.png'']"
    by (simp add: getContent_stale_file_example) (simp add: stale_world_def)
  have s: "Screenshot ''.a-good-selector'' ''./example.test-page.png'' None \<in>
           set [ValidateText ''.a-good-selector {}'', NewPage, CacheGet ''example.test'' ''/page'',
         Goto ''https://example.test/page'', ReadMarkup,
         CacheSet ''example.test'' ''/page'' ''<html>live</html>'',
         TextContent ''.a-good-selector'',
         Screenshot ''.a-good-selector'' ''./example.test-page.png'' None,
         ReadFile ''./example.test-page.png'', Unlink ''./example.test-page.png'']"
    by simp
  from getContent_cleanup [OF surjective_pairing t, THEN conjunct1, rule_format,
         OF conjI, OF s fault]
  have 2: "files (snd (getContent example_env stale_world
                 (Some (request ''.a-good-selector'' None (Some True)))))
     ''./example.test-page.png'' = None" .
  have 3: "files stale_world ''./example.test-page.png'' = Some ''OLD''"
    by (simp add: stale_world_def)
  from 1 2 3 show ?thesis by simp
qed

text \<open>
  The element is waited for in vain: the request is rejected with \<open>NO_CONTENT\<close> and the
  run calls no \<^verbatim>\<open>unlink\<close>.
\<close>

theorem getContent_timeout_counterexample:
  "fst (getContent example_env empty_world (Some (request ''.absent'' None (Some True)))) =
     Inl (Scraping (ScrapingError ''the selector .absent could not be found'' NO_CONTENT
            (Some \<lparr>path = Some ''.absent'', language = None, status = Some VALID\<rparr>))) \<and>
   trace (snd (getContent example_env empty_world (Some (request ''.absent'' None (Some True))))) =
     [ValidateText ''.absent {}'', NewPage, CacheGet ''example.test'' ''/page'',
      Goto ''https://example.test/page'', ReadMarkup,
      CacheSet ''example.test'' ''/page'' ''<html>live</html>'',
      TextContent ''.absent'']"
  by (simp add: getContent_absent_example)

text \<open>
  When the delete that follows the read-back fails, the \<^verbatim>\<open>catch\<close> block takes over: the
  request is rejected with \<open>ERROR\<close> although text and screenshot were obtained, and the
  file stays.
\<close>

lemma getContent_delete_fault_example:
  "getContent (example_env\<lparr>unlink_fault := \<lambda>file. Some ''EPERM: operation not permitted''\<rparr>)
      empty_world (Some (request ''.a-good-selector'' None (Some True))) =
     (Inl (Scraping (ScrapingError ''error Error when scraping .a-good-selector'' ERROR
             (Some \<lparr>path = Some ''.a-good-selector'', language = None, status = Some VALID\<rparr>))),
      \<lparr>cache = (\<lambda>k. None)((''example.test'', ''/page'') := Some ''<html>live</html>''),
       files = (\<lambda>f. None)(''./example.test-page.png'' := Some ''PNG''),
       trace =
        [ValidateText ''.a-good-selector {}'', NewPage, CacheGet ''example.test'' ''/page'',
         Goto ''https://example.test/page'', ReadMarkup,
         CacheSet ''example.test'' ''/page'' ''<html>live</html>'',
         TextContent ''.a-good-selector'',
         Screenshot ''.a-good-selector'' ''./example.test-page.png'' None,
         ReadFile ''./example.test-page.png'', Unlink ''./example.test-page.png'',
         Unlink ''./example.test-page.png'']\<rparr>)"
  by (simp add: getContent_def getContent_try_def getContent_clicks_def getContent_catch_def
      getContent_extract_def readFile_def unlink_def
      validateSelector_def unsupported_language_def path_text_def loadPage_def
      screenshotPath_def baseName_def thrown_by_def log_def Let_def
      request_def css_selector_def example_env_def empty_world_def)

subsection \<open>Empty or absent content\<close>

lemma getContent_extracting:
  assumes sel0: "selector req = Some sel0" and p: "path sel0 = Some p"
    and valid: "validateSelector env w sel0 = (Inr resp, w1)"
      "response_status resp \<noteq> GENERIC_ERROR" "status (response_selector resp) \<noteq> Some INVALID"
    and u: "new_URL env (url req) = Inr u"
    and page: "loadPage env w1 u = (Inr page, w2)"
    and clicks: "getContent_clicks env page w2 req = (None, page2, w3)"
  shows "getContent env w (Some req) =
           (case getContent_extract env page2 w3 (response_selector resp) p (screenshotPath u) of
              (Returns (Inr scraped), w4) \<Rightarrow> (Inr scraped, w4)
            | (Returns (Inl err), w4) \<Rightarrow> (Inl (Scraping err), w4)
            | (Throws error, w4) \<Rightarrow> getContent_catch env w4 (response_selector resp) p u error)"
  using assms by (simp add: getContent_def getContent_try_def Let_def)

lemma getContent_empty_text_error:
  assumes sel0: "selector req = Some sel0" and p: "path sel0 = Some p"
    and valid: "validateSelector env w sel0 = (Inr resp, w1)"
      "response_status resp \<noteq> GENERIC_ERROR" "status (response_selector resp) \<noteq> Some INVALID"
    and u: "new_URL env (url req) = Inr u"
    and page: "loadPage env w1 u = (Inr page, w2)"
    and clicks: "getContent_clicks env page w2 req = (None, page2, w3)"
    and "textContent env page2 p = Inr None \<or> textContent env page2 p = Inr (Some [])"
      and "(\<exists>msg. screenshot env page2 p = Inl (OtherError msg)) \<or>
             (\<exists>bytes. screenshot env page2 p = Inr bytes) \<and>
               (read_fault env (screenshotPath u) \<noteq> None \<or>
                unlink_fault env (screenshotPath u) \<noteq> None)"
  shows "\<exists>text. fst (getContent env w (Some req)) =
                  Inl (Scraping (ScrapingError text ERROR (Some (response_selector resp))))"
proof -
  note g = getContent_extracting [OF assms(1-8)]
  from assms(10) show ?thesis
  proof (elim disjE exE conjE)
    fix msg assume "screenshot env page2 p = Inl (OtherError msg)"
    with assms(9) show ?thesis
      by (auto simp add: g getContent_extract_def getContent_catch_def Let_def split: prod.splits)
  next
    fix bytes assume "screenshot env page2 p = Inr bytes" "read_fault env (screenshotPath u) \<noteq> None"
    with assms(9) show ?thesis
      by (auto simp add: g getContent_extract_def getContent_catch_def readFile_def
          log_def Let_def split: prod.splits)
  next
    fix bytes assume s: "screenshot env page2 p = Inr bytes" "unlink_fault env (screenshotPath u) \<noteq> None"
    show ?thesis
    proof (cases "read_fault env (screenshotPath u)")
      case None
      with s assms(9) show ?thesis
        by (auto simp add: g getContent_extract_def getContent_catch_def readFile_def unlink_def
          log_def Let_def split: prod.splits)
    next
      case (Some a)
      with s assms(9) show ?thesis
        by (auto simp add: g getContent_extract_def getContent_catch_def readFile_def
          log_def Let_def split: prod.splits)
    qed
  qed
qed

text \<open>
  C9, as the code has it. Take a request that reaches the extraction: its primary selector
  is valid, the page is loaded and the clicks leave no error. If reading the text times
  out, the request is rejected with \<open>NO_CONTENT\<close>, and nothing more is called. If the text
  is \<^verbatim>\<open>null\<close> or the empty string, the screenshot is still taken, and the request never
  succeeds: it is rejected with \<open>NO_CONTENT\<close> when the screenshot is taken, read back and
  deleted, and also when taking the screenshot times out; when the screenshot, the
  read-back or the delete fails otherwise, it is rejected with \<open>ERROR\<close>. For one and the
  same page, \<^verbatim>\<open>null\<close> and the empty string give the same result and the same world.
\<close>

theorem getContent_no_content:
  assumes sel0: "selector req = Some sel0" and p: "path sel0 = Some p"
    and valid: "validateSelector env w sel0 = (Inr resp, w1)"
      "response_status resp \<noteq> GENERIC_ERROR" "status (response_selector resp) \<noteq> Some INVALID"
    and u: "new_URL env (url req) = Inr u"
    and page: "loadPage env w1 u = (Inr page, w2)"
    and clicks: "getContent_clicks env page w2 req = (None, page2, w3)"
  shows "(\<forall>msg. textContent env page2 p = Inl (TimeoutError msg) \<longrightarrow>
            getContent env w (Some req) =
              (Inl (Scraping (ScrapingError (''the selector '' @ p @ '' could not be found'')
                                NO_CONTENT (Some (response_selector resp)))),
               log (TextContent p) w3)) \<and>
         (textContent env page2 p = Inr None \<or> textContent env page2 p = Inr (Some []) \<longrightarrow>
            (\<forall>scraped. fst (getContent env w (Some req)) \<noteq> Inr scraped) \<and>
            (\<forall>bytes. screenshot env page2 p = Inr bytes \<and>
                     read_fault env (screenshotPath u) = None \<and>
                     unlink_fault env (screenshotPath u) = None \<longrightarrow>
               fst (getContent env w (Some req)) =
                 Inl (Scraping (ScrapingError (''no content found for selector '' @ p)
                                  NO_CONTENT (Some (response_selector resp))))) \<and>
            (\<forall>msg. screenshot env page2 p = Inl (TimeoutError msg) \<longrightarrow>
               fst (getContent env w (Some req)) =
                 Inl (Scraping (ScrapingError (''the selector '' @ p @ '' could not be found'')
                                  NO_CONTENT (Some (response_selector resp))))) \<and>
            ((\<exists>msg. screenshot env page2 p = Inl (OtherError msg)) \<or>
             (\<exists>bytes. screenshot env page2 p = Inr bytes) \<and>
               (read_fault env (screenshotPath u) \<noteq> None \<or>
                unlink_fault env (screenshotPath u) \<noteq> None) \<longrightarrow>
               (\<exists>text. fst (getContent env w (Some req)) =
                  Inl (Scraping (ScrapingError text ERROR (Some (response_selector resp))))))) \<and>
         getContent_extract (env\<lparr>textContent := \<lambda>pg q. Inr None\<rparr>) page2 w3 sel p file =
         getContent_extract (env\<lparr>textContent := \<lambda>pg q. Inr (Some [])\<rparr>) page2 w3 sel p file"
proof (intro conjI allI impI)
  note g = getContent_extracting [OF assms]
  {
    fix msg
    assume "textContent env page2 p = Inl (TimeoutError msg)"
    then show "getContent env w (Some req) =
              (Inl (Scraping (ScrapingError (''the selector '' @ p @ '' could not be found'')
                                NO_CONTENT (Some (response_selector resp)))),
               log (TextContent p) w3)"
      by (simp add: g getContent_extract_def getContent_catch_def Let_def)
  }
  {
    fix scraped
    assume "textContent env page2 p = Inr None \<or> textContent env page2 p = Inr (Some [])"
    then show "fst (getContent env w (Some req)) \<noteq> Inr scraped"
      by (auto simp add: g getContent_extract_def getContent_catch_def Let_def
          split: sum.splits prod.splits thrown.splits ext_error.splits)
  }
  {
    fix bytes
    assume "textContent env page2 p = Inr None \<or> textContent env page2 p = Inr (Some [])"
      and "screenshot env page2 p = Inr bytes \<and>
                     read_fault env (screenshotPath u) = None \<and>
                     unlink_fault env (screenshotPath u) = None"
    then show "fst (getContent env w (Some req)) =
                 Inl (Scraping (ScrapingError (''no content found for selector '' @ p)
                                  NO_CONTENT (Some (response_selector resp))))"
      by (auto simp add: g getContent_extract_def readFile_def unlink_def log_def Let_def)
  }
  {
    fix msg
    assume "textContent env page2 p = Inr None \<or> textContent env page2 p = Inr (Some [])"
      and "screenshot env page2 p = Inl (TimeoutError msg)"
    then show "fst (getContent env w (Some req)) =
                 Inl (Scraping (ScrapingError (''the selector '' @ p @ '' could not be found'')
                                  NO_CONTENT (Some (response_selector resp))))"
      by (auto simp add: g getContent_extract_def getContent_catch_def Let_def)
  }
  {
    assume "textContent env page2 p = Inr None \<or> textContent env page2 p = Inr (Some [])"
      and "(\<exists>msg. screenshot env page2 p = Inl (OtherError msg)) \<or>
             (\<exists>bytes. screenshot env page2 p = Inr bytes) \<and>
               (read_fault env (screenshotPath u) \<noteq> None \<or>
                unlink_fault env (screenshotPath u) \<noteq> None)"
    then show "\<exists>text. fst (getContent env w (Some req)) =
                  Inl (Scraping (ScrapingError text ERROR (Some (response_selector resp))))"
      by (rule getContent_empty_text_error [OF assms])
  }
  show "getContent_extract (env\<lparr>textContent := \<lambda>pg q. Inr None\<rparr>) page2 w3 sel p file =
         getContent_extract (env\<lparr>textContent := \<lambda>pg q. Inr (Some [])\<rparr>) page2 w3 sel p file"
    by (auto simp add: getContent_extract_def readFile_def unlink_def log_def Let_def
        split: sum.splits prod.splits option.splits)
qed

theorem getContent_no_content_witness:
  "fst (getContent example_env empty_world (Some (request ''.empty'' None (Some True)))) =
     Inl (Scraping (ScrapingError ''no content found for selector .empty'' NO_CONTENT
            (Some \<lparr>path = Some ''.empty'', language = None, status = Some VALID\<rparr>))) \<and>
   fst (getContent example_env empty_world (Some (request ''.absent'' None (Some True)))) =
     Inl (Scraping (ScrapingError ''the selector .absent could not be found'' NO_CONTENT
            (Some \<lparr>path = Some ''.absent'', language = None, status = Some VALID\<rparr>)))"
proof -
  have reach:
    "selector (request q None (Some True)) = Some (css_selector q)"
    "path (css_selector q) = Some q"
    "validateSelector example_env empty_world (css_selector q) =
       (Inr (DataSelectorValidityResponse
               \<lparr>path = Some q, language = None,
                  status = Some (if q @ '' {}'' = ''div >> p {}'' \<or> q @ '' {}'' = '' {}''
                                 then INVALID else VALID)\<rparr>
               [''error parsing '' @ [CHR 0x27] @ q @ [CHR 0x27]] GENERIC_SUCCESS),
        log (ValidateText (q @ '' {}'')) empty_world)"
    "new_URL example_env (url (request q None (Some True))) = Inr page_url"
    "loadPage example_env (log (ValidateText (q @ '' {}'')) empty_world) page_url =
       (Inr ''<html>live</html>'',
        snd (loadPage example_env (log (ValidateText (q @ '' {}'')) empty_world) page_url))"
    "getContent_clicks example_env ''<html>live</html>''
        (snd (loadPage example_env (log (ValidateText (q @ '' {}'')) empty_world) page_url))
        (request q None (Some True)) =
       (None, ''<html>live</html>'',
        snd (loadPage example_env (log (ValidateText (q @ '' {}'')) empty_world) page_url))"
    if "q = ''.empty'' \<or> q = ''.absent''" for q
    using that
    by (auto simp add: request_def css_selector_def validateSelector_def unsupported_language_def
        path_text_def Let_def example_env_def page_url_def loadPage_def getContent_clicks_def
        empty_world_def log_def)
  have e: "''.empty'' = ''.empty'' \<or> ''.empty'' = ''.absent''"
    and a: "''.absent'' = ''.empty'' \<or> ''.absent'' = ''.absent''" by simp_all
  from getContent_no_content
         [OF reach(1) [OF e] reach(2) [OF e] reach(3) [OF e] _ _ reach(4) [OF e]
             reach(5) [OF e] reach(6) [OF e]]
  have 1: "fst (getContent example_env empty_world (Some (request ''.empty'' None (Some True)))) =
     Inl (Scraping (ScrapingError ''no content found for selector .empty'' NO_CONTENT
            (Some \<lparr>path = Some ''.empty'', language = None, status = Some VALID\<rparr>)))"
    by (simp add: example_env_def)
  from getContent_no_content
         [OF reach(1) [OF a] reach(2) [OF a] reach(3) [OF a] _ _ reach(4) [OF a]
             reach(5) [OF a] reach(6) [OF a]]
  have 2: "fst (getContent example_env empty_world (Some (request ''.absent'' None (Some True)))) =
     Inl (Scraping (ScrapingError ''the selector .absent could not be found'' NO_CONTENT
            (Some \<lparr>path = Some ''.absent'', language = None, status = Some VALID\<rparr>)))"
    by (simp add: example_env_def)
  from 1 2 show ?thesis by simp
qed

text \<open>
  The text of the element is empty and the screenshot cannot be written: the request is
  rejected with \<open>ERROR\<close>, not with \<open>NO_CONTENT\<close>.
\<close>

theorem getContent_empty_text_counterexample:
  "fst (getContent
          (example_env\<lparr>screenshot := \<lambda>page p. Inl (OtherError ''EACCES: permission denied'')\<rparr>)
          empty_world (Some (request ''.empty'' None (Some True)))) =
     Inl (Scraping (ScrapingError ''error Error when scraping .empty'' ERROR
            (Some \<lparr>path = Some ''.empty'', language = None, status = Some VALID\<rparr>)))"
  by (simp add: getContent_def getContent_try_def getContent_clicks_def getContent_catch_def
      getContent_extract_def unlink_def
      validateSelector_def unsupported_language_def path_text_def loadPage_def
      screenshotPath_def baseName_def thrown_by_def log_def Let_def
      request_def css_selector_def example_env_def empty_world_def)

end
